theory Spec2Isabelle
  imports Main "HOL-Library.Sublist" "HOL-Library.Multiset" "HOL-Library.AList"
begin

unbundle bit_operations_syntax

section \<open>Errors\<close>

text \<open>
  Go functions of the repository return \<open>(value, error)\<close>.  An error is a value of the
  datatype below; \<open>Panic\<close> stands for a run-time panic (index or slice bound out of
  range), which unwinds the call.
\<close>

datatype error =
    ErrMsg string
  | ValidationErr string
  | BrokerErr string
  | KvErr string
  | JsonErr string
  | Panic string

section \<open>common.CheckString\<close>

text \<open>
  \<^verbatim>\<open>regexp.Compile("(?i)[a-z]([-a-z0-9+]*[a-z0-9])?")\<close> followed by \<^verbatim>\<open>FindString\<close>.
  Go strings are byte sequences, matched rune by rune.  Under \<^verbatim>\<open>(?i)\<close> the class
  \<^verbatim>\<open>[a-z]\<close> is closed under Unicode simple case folding, so besides the ASCII letters
  it holds U+017F (bytes C5 BF, folds to s) and U+212A (bytes E2 84 AA, folds to k).
  A class is modelled by the function that consumes one rune of the class from the
  front of the byte string.  No byte that starts one of these runes is a UTF-8 continuation
  byte, so stepping through the bytes meets the same rune boundaries as Go's decoder.
\<close>

definition is_lower :: "char \<Rightarrow> bool" where
  "is_lower c = (97 \<le> (of_char c :: nat) \<and> (of_char c :: nat) \<le> 122)"

definition is_upper :: "char \<Rightarrow> bool" where
  "is_upper c = (65 \<le> (of_char c :: nat) \<and> (of_char c :: nat) \<le> 90)"

definition is_letter :: "char \<Rightarrow> bool" where
  "is_letter c = (is_lower c \<or> is_upper c)"

definition is_digit :: "char \<Rightarrow> bool" where
  "is_digit c = (48 \<le> (of_char c :: nat) \<and> (of_char c :: nat) \<le> 57)"

definition cls_letter :: "string \<Rightarrow> string option" where
  "cls_letter s =
     (case s of
        [] \<Rightarrow> None
      | c # cs \<Rightarrow>
          if is_letter c then Some cs
          else if prefix [CHR 0xC5, CHR 0xBF] s then Some (drop 2 s)
          else if prefix [CHR 0xE2, CHR 0x84, CHR 0xAA] s then Some (drop 3 s)
          else None)"

definition cls_alnum :: "string \<Rightarrow> string option" where
  "cls_alnum s =
     (case s of
        [] \<Rightarrow> None
      | c # cs \<Rightarrow> if is_digit c then Some cs else cls_letter s)"

definition cls_body :: "string \<Rightarrow> string option" where
  "cls_body s =
     (case s of
        [] \<Rightarrow> None
      | c # cs \<Rightarrow> if c = CHR ''-'' \<or> c = CHR ''+'' then Some cs else cls_alnum s)"

datatype rx =
    Atom "string \<Rightarrow> string option"
  | Seq rx rx
  | Opt rx
  | StarAtom "string \<Rightarrow> string option"

text \<open>
  \<open>star_run f s\<close>: the inputs left after zero or more runes of the class, the longest
  run first (the star is greedy).
\<close>

function star_run :: "(string \<Rightarrow> string option) \<Rightarrow> string \<Rightarrow> string list" where
  "star_run f s =
     (case f s of
        None \<Rightarrow> [s]
      | Some r \<Rightarrow> if length r < length s then star_run f r @ [s] else [s])"
  by pat_completeness auto
termination
  by (relation "measure (\<lambda>(f, s). length s)") auto

declare star_run.simps [simp del]

text \<open>
  \<open>rx_run r s\<close>: every way \<open>r\<close> matches a prefix of \<open>s\<close>, as the input left after
  the match, in the order a backtracking matcher tries them (Go's leftmost-first
  semantics: a greedy star prefers more iterations, \<^verbatim>\<open>?\<close> prefers to match).
\<close>

fun rx_run :: "rx \<Rightarrow> string \<Rightarrow> string list" where
  "rx_run (Atom f) s = (case f s of None \<Rightarrow> [] | Some r \<Rightarrow> [r])"
| "rx_run (Seq a b) s = concat (map (rx_run b) (rx_run a s))"
| "rx_run (Opt a) s = rx_run a s @ [s]"
| "rx_run (StarAtom f) s = star_run f s"

text \<open>\<^verbatim>\<open>FindString\<close>: the text of the leftmost match, or the empty string.\<close>

fun find_at :: "rx \<Rightarrow> string \<Rightarrow> string option" where
  "find_at r [] =
     (case rx_run r [] of rest # _ \<Rightarrow> Some [] | [] \<Rightarrow> None)"
| "find_at r (c # cs) =
     (case rx_run r (c # cs) of
        rest # _ \<Rightarrow> Some (take (length (c # cs) - length rest) (c # cs))
      | [] \<Rightarrow> find_at r cs)"

definition FindString :: "rx \<Rightarrow> string \<Rightarrow> string" where
  "FindString r s = (case find_at r s of None \<Rightarrow> [] | Some m \<Rightarrow> m)"

definition name_rx :: rx where
  "name_rx = Seq (Atom cls_letter) (Opt (Seq (StarAtom cls_body) (Atom cls_alnum)))"

definition name_rule_msg :: string where
  "name_rule_msg = '': The name must follow these rules: '' @
     ''1. The first character must be a letter (case-insensitive). '' @
     ''2. All following characters can be a dash, letter (case-insensitive), digit, or +. '' @
     ''3. The last character cannot be a dash.''"

definition CheckString :: "string \<Rightarrow> error option" where
  "CheckString name =
     (if name = [] then Some (ErrMsg ''The provided string is empty'')
      else let filtered = FindString name_rx name in
        if filtered \<noteq> name then Some (ErrMsg (name @ name_rule_msg))
        else None)"


text \<open>
  The rule that \<^verbatim>\<open>CheckString\<close> enforces, read off its error message, as one pass over
  the name: the first rune is a letter; every later rune is a dash, a plus, a letter or a
  digit; the last rune is not a dash or a plus.  \<open>rest_ok ok s\<close> reads the runes after
  the first, \<open>ok\<close> telling whether the name may end here.
\<close>

lemma cls_letter_length: "cls_letter s = Some r \<Longrightarrow> length r < length s"
  by (cases s) (auto simp: cls_letter_def split: if_splits)

lemma cls_alnum_length: "cls_alnum s = Some r \<Longrightarrow> length r < length s"
  by (cases s) (auto simp: cls_alnum_def split: if_splits dest: cls_letter_length)


function rest_ok :: "bool \<Rightarrow> string \<Rightarrow> bool" where
  "rest_ok ok s =
     (case s of
        [] \<Rightarrow> ok
      | c # cs \<Rightarrow>
          if c = CHR ''-'' \<or> c = CHR ''+'' then rest_ok False cs
          else (case cls_alnum s of Some r \<Rightarrow> rest_ok True r | None \<Rightarrow> False))"
  by pat_completeness auto
termination
  by (relation "measure (\<lambda>(ok, s). length s)") (auto dest: cls_alnum_length)

declare rest_ok.simps [simp del]

definition name_rule :: "string \<Rightarrow> bool" where
  "name_rule s = (case cls_letter s of None \<Rightarrow> False | Some r \<Rightarrow> rest_ok True r)"


definition is_ascii :: "char \<Rightarrow> bool" where
  "is_ascii c = ((of_char c :: nat) < 128)"

section \<open>Data model\<close>

text \<open>
  The package \<^verbatim>\<open>model\<close> is not among the sources; each record has the fields that the
  functions modelled here read or write.  A field keeps its Go name, suffixed with the
  struct it belongs to.
\<close>

record KeyValue =
  Key :: string
  Value :: string

record IID =
  NameId :: string
  SystemId :: string

record TbSubnetReq =
  Name_SubnetReq :: string
  IPv4_CIDR_SubnetReq :: string
  Zone_SubnetReq :: string
  TagList_SubnetReq :: "KeyValue list"

record TbVNetReq =
  Name_VNetReq :: string
  ConnectionName_VNetReq :: string
  CidrBlock_VNetReq :: string
  SubnetInfoList_VNetReq :: "TbSubnetReq list"
  Description_VNetReq :: string
  TagList_VNetReq :: "KeyValue list"

record TbSubnetInfo =
  Id_Subnet :: string
  Name_Subnet :: string
  Uuid_Subnet :: string
  ConnectionName_Subnet :: string
  CspVNetId_Subnet :: string
  CspVNetName_Subnet :: string
  Status_Subnet :: string
  CspSubnetId :: string
  CspSubnetName :: string
  KeyValueList_Subnet :: "KeyValue list"
  TagList_Subnet :: "KeyValue list"
  Zone_Subnet :: string
  IPv4_CIDR_Subnet :: string

record TbVNetInfo =
  Id_VNet :: string
  Name_VNet :: string
  Uuid_VNet :: string
  ConnectionName_VNet :: string
  CidrBlock_VNet :: string
  Status_VNet :: string
  CspVNetId :: string
  CspVNetName :: string
  KeyValueList_VNet :: "KeyValue list"
  SubnetInfoList_VNet :: "TbSubnetInfo list"
  Description_VNet :: string
  TagList_VNet :: "KeyValue list"

record SimpleMsg =
  Message :: string

text \<open>The zero values \<^verbatim>\<open>model.TbVNetInfo{}\<close>, \<^verbatim>\<open>model.TbSubnetInfo{}\<close>, \<^verbatim>\<open>model.SimpleMsg{}\<close>.\<close>

definition zero_Subnet :: TbSubnetInfo where
  "zero_Subnet = \<lparr>Id_Subnet = [], Name_Subnet = [], Uuid_Subnet = [],
     ConnectionName_Subnet = [], CspVNetId_Subnet = [], CspVNetName_Subnet = [],
     Status_Subnet = [], CspSubnetId = [], CspSubnetName = [], KeyValueList_Subnet = [],
     TagList_Subnet = [], Zone_Subnet = [], IPv4_CIDR_Subnet = []\<rparr>"

definition zero_VNet :: TbVNetInfo where
  "zero_VNet = \<lparr>Id_VNet = [], Name_VNet = [], Uuid_VNet = [], ConnectionName_VNet = [],
     CidrBlock_VNet = [], Status_VNet = [], CspVNetId = [], CspVNetName = [],
     KeyValueList_VNet = [], SubnetInfoList_VNet = [], Description_VNet = [],
     TagList_VNet = []\<rparr>"

definition zero_Msg :: SimpleMsg where
  "zero_Msg = \<lparr>Message = []\<rparr>"

subsection \<open>The request and response bodies of the broker (Spider)\<close>

record spiderAddSubnetRequestInfo =
  Name_spAddSubnet :: string
  IPv4_CIDR_spAddSubnet :: string
  Zone_spAddSubnet :: string
  TagList_spAddSubnet :: "KeyValue list"

record spiderCreateVPCRequestInfo =
  Name_spReqInfo :: string
  IPv4_CIDR_spReqInfo :: string
  SubnetInfoList_spReqInfo :: "spiderAddSubnetRequestInfo list"
  TagList_spReqInfo :: "KeyValue list"

record spiderCreateVPCRequest =
  ConnectionName_spCreateVPC :: string
  IDTransformMode :: string
  ReqInfo :: spiderCreateVPCRequestInfo

record spiderSubnetInfo =
  IId_spSubnet :: IID
  Zone_spSubnet :: string
  IPv4_CIDR_spSubnet :: string
  TagList_spSubnet :: "KeyValue list"
  KeyValueList_spSubnet :: "KeyValue list"

record spiderVPCInfo =
  IId_spVPC :: IID
  IPv4_CIDR_spVPC :: string
  SubnetInfoList_spVPC :: "spiderSubnetInfo list"
  TagList_spVPC :: "KeyValue list"
  KeyValueList_spVPC :: "KeyValue list"

subsection \<open>Connections and the cloud catalog\<close>

record RegionDetail =
  RegionId :: string
  RegionName :: string
  Zones :: "string list"

record RegionZoneInfo =
  AssignedRegion :: string
  AssignedZone :: string

record ConnConfig =
  ConfigName :: string
  ProviderName :: string
  DriverName :: string
  CredentialName :: string
  CredentialHolder :: string
  RegionZoneInfoName :: string
  RegionZoneInfo_Conn :: RegionZoneInfo
  RegionDetail_Conn :: RegionDetail
  Verified :: bool
  RegionRepresentative :: bool

text \<open>
  \<^verbatim>\<open>RuntimeCloudInfo\<close>: Go maps, kept as association lists; a \<^verbatim>\<open>range\<close> over a Go map
  visits the keys in an order the language leaves open, the model visits them in list
  order.
\<close>

record CSPDetail =
  Driver :: string
  Regions :: "(string \<times> RegionDetail) list"

record CloudInfo =
  CSPs :: "(string \<times> CSPDetail) list"

definition zero_RegionDetail :: RegionDetail where
  "zero_RegionDetail = \<lparr>RegionId = [], RegionName = [], Zones = []\<rparr>"

definition zero_RegionZoneInfo :: RegionZoneInfo where
  "zero_RegionZoneInfo = \<lparr>AssignedRegion = [], AssignedZone = []\<rparr>"

definition zero_ConnConfig :: ConnConfig where
  "zero_ConnConfig = \<lparr>ConfigName = [], ProviderName = [], DriverName = [],
     CredentialName = [], CredentialHolder = [], RegionZoneInfoName = [],
     RegionZoneInfo_Conn = zero_RegionZoneInfo, RegionDetail_Conn = zero_RegionDetail,
     Verified = False, RegionRepresentative = False\<rparr>"

section \<open>The key-value store\<close>

text \<open>
  Modelled from the spec: the packages \<^verbatim>\<open>kvstore\<close> and \<^verbatim>\<open>kvutil\<close> are not among the
  sources.  Section 4.1 of the specification: a string-keyed store with \<open>Put\<close>, \<open>Get\<close>,
  \<open>Delete\<close> and \<open>List(prefix)\<close>; \<open>FilterByDepth\<close> keeps the entries whose key has exactly
  \<open>depth\<close> path segments after the prefix.  The store is an association list in
  insertion order; a listing follows that order (the specification leaves the order
  open).  The operations have Go's signatures and return an error value, which this
  store never produces; the callers' error branches are modelled all the same.

  A stored value is the JSON text of one Go value.  The model keeps the Go value itself
  (\<open>json.Marshal\<close> is the constructor); \<open>json.Unmarshal\<close> into a struct succeeds on a
  document of that struct and is reported as an error on anything else.
\<close>

datatype doc =
    VNetDoc TbVNetInfo
  | SubnetDoc TbSubnetInfo
  | ConnDoc ConnConfig
  | Text string

type_synonym kvs = "(string \<times> doc) list"

definition kv_Put :: "kvs \<Rightarrow> string \<Rightarrow> doc \<Rightarrow> error + kvs" where
  "kv_Put s k v = Inr (AList.update k v s)"

definition kv_GetKv :: "kvs \<Rightarrow> string \<Rightarrow> error + (string \<times> doc) option" where
  "kv_GetKv s k = Inr (case map_of s k of None \<Rightarrow> None | Some v \<Rightarrow> Some (k, v))"

definition kv_GetKvList :: "kvs \<Rightarrow> string \<Rightarrow> error + (string \<times> doc) list" where
  "kv_GetKvList s p = Inr (filter (\<lambda>(k, v). prefix p k) s)"

definition kv_Delete :: "kvs \<Rightarrow> string \<Rightarrow> error + kvs" where
  "kv_Delete s k = Inr (AList.delete k s)"

definition depth_after :: "string \<Rightarrow> string \<Rightarrow> nat option" where
  "depth_after p k =
     (if prefix p k \<and> prefix ''/'' (drop (length p) k)
      then Some (length (filter (\<lambda>c. c = CHR ''/'') (drop (length p) k)))
      else None)"

definition FilterKvListBy :: "(string \<times> doc) list \<Rightarrow> string \<Rightarrow> nat \<Rightarrow> (string \<times> doc) list" where
  "FilterKvListBy l p depth = filter (\<lambda>(k, v). depth_after p k = Some depth) l"

definition Unmarshal_VNet :: "doc \<Rightarrow> error + TbVNetInfo" where
  "Unmarshal_VNet d = (case d of VNetDoc v \<Rightarrow> Inr v | _ \<Rightarrow> Inl (JsonErr ''TbVNetInfo''))"

definition Unmarshal_Subnet :: "doc \<Rightarrow> error + TbSubnetInfo" where
  "Unmarshal_Subnet d = (case d of SubnetDoc v \<Rightarrow> Inr v | _ \<Rightarrow> Inl (JsonErr ''TbSubnetInfo''))"

definition Unmarshal_ConnConfig :: "doc \<Rightarrow> error + ConnConfig" where
  "Unmarshal_ConnConfig d = (case d of ConnDoc v \<Rightarrow> Inr v | _ \<Rightarrow> Inl (JsonErr ''ConnConfig''))"

section \<open>Keys\<close>

text \<open>
  The resource-type constants of the missing package \<^verbatim>\<open>model\<close>, with the spellings of
  the key layout in the specification.
\<close>

definition StrImage :: string where "StrImage = ''image''"
definition StrCustomImage :: string where "StrCustomImage = ''customImage''"
definition StrSSHKey :: string where "StrSSHKey = ''sshKey''"
definition StrSpec :: string where "StrSpec = ''spec''"
definition StrVNet :: string where "StrVNet = ''vNet''"
definition StrSubnet :: string where "StrSubnet = ''subnet''"
definition StrSecurityGroup :: string where "StrSecurityGroup = ''securityGroup''"
definition StrDataDisk :: string where "StrDataDisk = ''dataDisk''"

definition GenResourceKey :: "string \<Rightarrow> string \<Rightarrow> string \<Rightarrow> string" where
  "GenResourceKey nsId resourceType resourceId =
     (if resourceType = StrImage \<or> resourceType = StrCustomImage \<or>
         resourceType = StrSSHKey \<or> resourceType = StrSpec \<or>
         resourceType = StrVNet \<or> resourceType = StrSecurityGroup \<or>
         resourceType = StrDataDisk
      then ''/ns/'' @ nsId @ ''/resources/'' @ resourceType @ ''/'' @ resourceId
      else ''/invalidKey'')"

definition GenChildResourceKey :: "string \<Rightarrow> string \<Rightarrow> string \<Rightarrow> string \<Rightarrow> string" where
  "GenChildResourceKey nsId resourceType parentResourceId resourceId =
     (if resourceType = StrSubnet
      then ''/ns/'' @ nsId @ ''/resources/'' @ StrVNet @ ''/'' @ parentResourceId @ ''/'' @
           resourceType @ ''/'' @ resourceId
      else ''/invalidKey'')"

definition GenConnectionKey :: "string \<Rightarrow> string" where
  "GenConnectionKey connectionId = ''/connection/'' @ connectionId"

section \<open>Library functions on strings\<close>

text \<open>
  \<^verbatim>\<open>strings.ToLower\<close>, \<^verbatim>\<open>strings.ToUpper\<close> and \<^verbatim>\<open>strings.EqualFold\<close>, on the ASCII
  letters (the names of providers, regions and holders); the mappings of the Go library
  for runes outside ASCII are not modelled.
\<close>

definition lower_char :: "char \<Rightarrow> char" where
  "lower_char c = (if is_upper c then char_of ((of_char c :: nat) + 32) else c)"

definition upper_char :: "char \<Rightarrow> char" where
  "upper_char c = (if is_lower c then char_of ((of_char c :: nat) - 32) else c)"

definition ToLower :: "string \<Rightarrow> string" where
  "ToLower s = map lower_char s"

definition ToUpper :: "string \<Rightarrow> string" where
  "ToUpper s = map upper_char s"

definition EqualFold :: "string \<Rightarrow> string \<Rightarrow> bool" where
  "EqualFold a b = (ToLower a = ToLower b)"


text \<open>\<^verbatim>\<open>strconv.ParseBool\<close>.\<close>

definition ParseBool :: "string \<Rightarrow> error + bool" where
  "ParseBool str =
     (if str \<in> set [''1'', ''t'', ''T'', ''TRUE'', ''true'', ''True''] then Inr True
      else if str \<in> set [''0'', ''f'', ''F'', ''FALSE'', ''false'', ''False''] then Inr False
      else Inl (ErrMsg (''strconv.ParseBool: parsing '' @ str @ '': invalid syntax'')))"

section \<open>The environment and the state\<close>

text \<open>
  The broker is outside the repository: each of its endpoints is a function from the
  request to the response or the error that \<^verbatim>\<open>ExecuteHttpRequest\<close> returns.
\<close>

record spider =
  spider_create_vpc :: "spiderCreateVPCRequest \<Rightarrow> error + spiderVPCInfo"
  spider_delete_vpc :: "string \<Rightarrow> string \<Rightarrow> error + string"
  spider_dereg_vpc :: "string \<Rightarrow> string \<Rightarrow> error + string"
  spider_delete_subnet :: "string \<Rightarrow> string \<Rightarrow> string \<Rightarrow> error + string"

text \<open>
  \<open>uid_of n\<close> is the \<open>n\<close>-th identifier that \<^verbatim>\<open>xid.New().String()\<close> hands out;
  \<open>field_errors\<close> stands for the \<^verbatim>\<open>validate\<close> tags on the fields of
  \<^verbatim>\<open>model.TbVNetReq\<close> (the declaration is not among the sources) and gives the fields
  that fail; \<open>ValidateNetwork\<close> is \<^verbatim>\<open>netutil.ValidateNetwork\<close> (package not among the
  sources) on the CIDR block of the network and those of its subnets; \<open>cloud\<close> is
  \<^verbatim>\<open>RuntimeCloudInfo\<close>.
\<close>

record env =
  uid_of :: "nat \<Rightarrow> string"
  field_errors :: "TbVNetReq \<Rightarrow> string list"
  ValidateNetwork :: "string \<Rightarrow> string list \<Rightarrow> error option"
  cloud :: CloudInfo
  broker :: spider

type_synonym PrivateKey = nat

record world =
  kv :: kvs
  uid_count :: nat
  privateKeyStore :: "(string \<times> PrivateKey) list"

definition GenUid :: "env \<Rightarrow> world \<Rightarrow> string \<times> world" where
  "GenUid e w = (uid_of e (uid_count w), w\<lparr>uid_count := Suc (uid_count w)\<rparr>)"

section \<open>Validation\<close>

text \<open>
  \<^verbatim>\<open>validate.Struct(vNetReq)\<close>: the field tags, then the struct-level validation
  \<^verbatim>\<open>TbVNetReqStructLevelValidation\<close>, which reports the field \<^verbatim>\<open>name\<close> when
  \<^verbatim>\<open>CheckString(u.Name)\<close> fails.  The call returns an error when anything was reported.
\<close>

definition TbVNetReqStructLevelValidation :: "TbVNetReq \<Rightarrow> string list" where
  "TbVNetReqStructLevelValidation u =
     (case CheckString (Name_VNetReq u) of None \<Rightarrow> [] | Some err \<Rightarrow> [''name''])"

definition validate_Struct :: "env \<Rightarrow> TbVNetReq \<Rightarrow> error option" where
  "validate_Struct e vNetReq =
     (let reported = field_errors e vNetReq @ TbVNetReqStructLevelValidation vNetReq in
      if reported = [] then None
      else Some (ValidationErr (concat (map (\<lambda>f. f @ '';'') reported))))"

definition quoted :: "string \<Rightarrow> string" where
  "quoted s = [CHR 0x27] @ s @ [CHR 0x27]"

text \<open>\<^verbatim>\<open>GetRegion\<close> reads \<^verbatim>\<open>RuntimeCloudInfo\<close>, here its first argument.\<close>

definition GetRegion :: "CloudInfo \<Rightarrow> string \<Rightarrow> string \<Rightarrow> error + RegionDetail" where
  "GetRegion cloudInfo ProviderName' RegionName' =
     (let provider = ToLower ProviderName'; region = ToLower RegionName' in
      case map_of (CSPs cloudInfo) provider of
        None \<Rightarrow> Inl (ErrMsg (''cloudType '' @ quoted provider @ '' not found''))
      | Some cspDetail \<Rightarrow>
          (case find (\<lambda>(key, regionDetail). EqualFold region key) (Regions cspDetail) of
             Some (key, regionDetail) \<Rightarrow> Inr regionDetail
           | None \<Rightarrow> Inl (ErrMsg (''nativeRegion '' @ quoted region @
                                  '' not found in Provider '' @ quoted provider))))"



section \<open>Network status\<close>

definition NetworkOnConfiguring :: string where "NetworkOnConfiguring = ''Configuring''"
definition NetworkOnDeleting :: string where "NetworkOnDeleting = ''Deleting''"
definition NetworkOnRegistering :: string where "NetworkOnRegistering = ''Registering''"
definition NetworkOnDeregistering :: string where "NetworkOnDeregistering = ''Dergistering''"
definition NetworkAvailable :: string where "NetworkAvailable = ''Available''"
definition NetworkInUse :: string where "NetworkInUse = ''InUse''"
definition NetworkUnknown :: string where "NetworkUnknown = ''Unknown''"
definition NetworkErrorOnDeleting :: string where
  "NetworkErrorOnDeleting = ''ErrorOnDeleting''"

section \<open>vNet operations\<close>

text \<open>
  Modelled from the spec: \<^verbatim>\<open>CheckResource\<close> is not among the sources.  Section 4.5:
  a resource kind rejects a duplicate Id in the same namespace; the resource exists when
  its canonical key holds a value.
\<close>

definition CheckResource :: "world \<Rightarrow> string \<Rightarrow> string \<Rightarrow> string \<Rightarrow> bool \<times> error option" where
  "CheckResource w nsId resourceType resourceId =
     (case kv_GetKv (kv w) (GenResourceKey nsId resourceType resourceId) of
        Inl err \<Rightarrow> (False, Some err)
      | Inr None \<Rightarrow> (False, None)
      | Inr (Some keyValue) \<Rightarrow> (True, None))"

text \<open>
  Modelled from the spec: \<^verbatim>\<open>DeleteSubnet\<close> is not among the sources.  Section 4.5:
  on delete, persist \<open>Deleting\<close>, call the broker, on success delete the key, on failure
  leave \<open>ErrorOnDeleting\<close>.
\<close>

definition DeleteSubnet ::
  "env \<Rightarrow> world \<Rightarrow> string \<Rightarrow> string \<Rightarrow> string \<Rightarrow> (error + SimpleMsg) \<times> world" where
  "DeleteSubnet e w nsId vNetId subnetId =
     (let subnetKey = GenChildResourceKey nsId StrSubnet vNetId subnetId in
      case kv_GetKv (kv w) subnetKey of
        Inl err \<Rightarrow> (Inl err, w)
      | Inr None \<Rightarrow> (Inl (ErrMsg (''does not exist, subnet: '' @ subnetId)), w)
      | Inr (Some (k, d)) \<Rightarrow>
          (case Unmarshal_Subnet d of
             Inl err \<Rightarrow> (Inl err, w)
           | Inr subnet \<Rightarrow>
               (case kv_Put (kv w) subnetKey
                       (SubnetDoc (subnet\<lparr>Status_Subnet := NetworkOnDeleting\<rparr>)) of
                  Inl err \<Rightarrow> (Inl err, w)
                | Inr s1 \<Rightarrow>
                    (let failed = (\<lambda>err.
                           case kv_Put s1 subnetKey
                                  (SubnetDoc (subnet\<lparr>Status_Subnet := NetworkErrorOnDeleting\<rparr>)) of
                             Inl err' \<Rightarrow> (Inl err, w\<lparr>kv := s1\<rparr>)
                           | Inr s2 \<Rightarrow> (Inl err, w\<lparr>kv := s2\<rparr>)) in
                     case spider_delete_subnet (broker e) (CspVNetName_Subnet subnet)
                            (CspSubnetName subnet) (ConnectionName_Subnet subnet) of
                       Inl err \<Rightarrow> failed err
                     | Inr result \<Rightarrow>
                         (case ParseBool result of
                            Inl err \<Rightarrow> failed err
                          | Inr ok \<Rightarrow>
                              if \<not> ok
                              then failed (ErrMsg (''failed to delete the subnet ('' @ subnetId @ '')''))
                              else
                                (case kv_Delete s1 subnetKey of
                                   Inl err \<Rightarrow> (Inl err, w\<lparr>kv := s1\<rparr>)
                                 | Inr s2 \<Rightarrow>
                                     (Inr \<lparr>Message = ''the subnet ('' @ subnetId @ '') has been deleted''\<rparr>,
                                      w\<lparr>kv := s2\<rparr>)))))))"

subsection \<open>CreateVNet\<close>

text \<open>The loop that sets the subnets of \<open>vNetInfo\<close> in advance, one fresh Uuid each.\<close>

fun init_subnets :: "env \<Rightarrow> world \<Rightarrow> TbSubnetReq list \<Rightarrow> TbSubnetInfo list \<times> world" where
  "init_subnets e w [] = ([], w)"
| "init_subnets e w (subnetInfo # rest) =
     (let (uid, w1) = GenUid e w;
          (infos, w2) = init_subnets e w1 rest
      in (zero_Subnet\<lparr>Id_Subnet := Name_SubnetReq subnetInfo,
                       Name_Subnet := Name_SubnetReq subnetInfo,
                       Uuid_Subnet := uid,
                       IPv4_CIDR_Subnet := IPv4_CIDR_SubnetReq subnetInfo,
                       Zone_Subnet := Zone_SubnetReq subnetInfo,
                       TagList_Subnet := TagList_SubnetReq subnetInfo\<rparr> # infos, w2))"

text \<open>
  The part of \<^verbatim>\<open>CreateVNet\<close> before the broker is called: validation, the duplicate
  check, the object with its subnets and status \<open>Configuring\<close>, and its first \<open>Put\<close>.
  It yields the object, its Uuid and its key.
\<close>

definition CreateVNet_prepare ::
  "env \<Rightarrow> world \<Rightarrow> string \<Rightarrow> TbVNetReq \<Rightarrow> (error + TbVNetInfo \<times> string \<times> string) \<times> world" where
  "CreateVNet_prepare e w nsId vNetReq =
     (case CheckString nsId of
        Some err \<Rightarrow> (Inl err, w)
      | None \<Rightarrow>
     (case validate_Struct e vNetReq of
        Some err \<Rightarrow> (Inl err, w)
      | None \<Rightarrow>
     (let (uuid, w1) = GenUid e w;
          vNetInfo = zero_VNet\<lparr>Name_VNet := Name_VNetReq vNetReq,
                                Id_VNet := Name_VNetReq vNetReq,
                                Uuid_VNet := uuid,
                                ConnectionName_VNet := ConnectionName_VNetReq vNetReq,
                                Description_VNet := Description_VNetReq vNetReq,
                                TagList_VNet := TagList_VNetReq vNetReq\<rparr>;
          vNetKey = GenResourceKey nsId StrVNet (Id_VNet vNetInfo);
          (exists, err) = CheckResource w1 nsId StrVNet (Id_VNet vNetInfo)
      in
        if exists then (Inl (ErrMsg (''already exists, vNet: '' @ Id_VNet vNetInfo)), w1)
        else if err \<noteq> None
        then (Inl (ErrMsg (''failed to check if the vNet ('' @ Id_VNet vNetInfo @
                            '') exists or not'')), w1)
        else
          (let (subnets, w2) = init_subnets e w1 (SubnetInfoList_VNetReq vNetReq);
               vNetInfo = vNetInfo\<lparr>SubnetInfoList_VNet := subnets,
                                    Status_VNet := NetworkOnConfiguring\<rparr>
           in case kv_Put (kv w2) vNetKey (VNetDoc vNetInfo) of
                Inl err \<Rightarrow> (Inl err, w2)
              | Inr s \<Rightarrow> (Inr (vNetInfo, uuid, vNetKey), w2\<lparr>kv := s\<rparr>)))))"

text \<open>The request body: the Uuids stand for the names of the vNet and of its subnets.\<close>

definition CreateVNet_request :: "TbVNetReq \<Rightarrow> TbVNetInfo \<Rightarrow> string \<Rightarrow> spiderCreateVPCRequest" where
  "CreateVNet_request vNetReq vNetInfo uuid =
     \<lparr>ConnectionName_spCreateVPC = ConnectionName_VNetReq vNetReq,
      IDTransformMode = [],
      ReqInfo = \<lparr>Name_spReqInfo = uuid,
                 IPv4_CIDR_spReqInfo = CidrBlock_VNetReq vNetReq,
                 SubnetInfoList_spReqInfo =
                   map (\<lambda>subnetInfo.
                          \<lparr>Name_spAddSubnet = Uuid_Subnet subnetInfo,
                           IPv4_CIDR_spAddSubnet = IPv4_CIDR_Subnet subnetInfo,
                           Zone_spAddSubnet = Zone_Subnet subnetInfo,
                           TagList_spAddSubnet = TagList_Subnet subnetInfo\<rparr>)
                       (SubnetInfoList_VNet vNetInfo),
                 TagList_spReqInfo = []\<rparr>\<rparr>"

text \<open>
  The two nested loops that copy the response into the subnets: for each subnet of the
  response, every local subnet whose Uuid is the response's \<open>NameId\<close> is updated.
\<close>

definition update_subnet :: "TbVNetInfo \<Rightarrow> spiderVPCInfo \<Rightarrow> spiderSubnetInfo \<Rightarrow> TbSubnetInfo \<Rightarrow> TbSubnetInfo" where
  "update_subnet vNetInfo spResp spSubnetInfo tbSubnetInfo =
     (if Uuid_Subnet tbSubnetInfo = NameId (IId_spSubnet spSubnetInfo)
      then tbSubnetInfo\<lparr>ConnectionName_Subnet := ConnectionName_VNet vNetInfo,
                         CspVNetId_Subnet := SystemId (IId_spVPC spResp),
                         CspVNetName_Subnet := NameId (IId_spVPC spResp),
                         Status_Subnet := NetworkAvailable,
                         CspSubnetId := SystemId (IId_spSubnet spSubnetInfo),
                         CspSubnetName := NameId (IId_spSubnet spSubnetInfo),
                         KeyValueList_Subnet := KeyValueList_spSubnet spSubnetInfo,
                         TagList_Subnet := TagList_spSubnet spSubnetInfo,
                         Zone_Subnet := Zone_spSubnet spSubnetInfo,
                         IPv4_CIDR_Subnet := IPv4_CIDR_spSubnet spSubnetInfo\<rparr>
      else tbSubnetInfo)"

definition reconcile_subnets :: "TbVNetInfo \<Rightarrow> spiderVPCInfo \<Rightarrow> TbSubnetInfo list" where
  "reconcile_subnets vNetInfo spResp =
     fold (\<lambda>spSubnetInfo subnets. map (update_subnet vNetInfo spResp spSubnetInfo) subnets)
       (SubnetInfoList_spVPC spResp) (SubnetInfoList_VNet vNetInfo)"

text \<open>The loop that saves the subnet objects.\<close>

fun put_subnets :: "kvs \<Rightarrow> string \<Rightarrow> string \<Rightarrow> TbSubnetInfo list \<Rightarrow> error + kvs" where
  "put_subnets s nsId vNetId [] = Inr s"
| "put_subnets s nsId vNetId (subnetInfo # rest) =
     (case kv_Put s (GenChildResourceKey nsId StrSubnet vNetId (Id_Subnet subnetInfo))
             (SubnetDoc subnetInfo) of
        Inl err \<Rightarrow> Inl err
      | Inr s1 \<Rightarrow> put_subnets s1 nsId vNetId rest)"

text \<open>The part of \<^verbatim>\<open>CreateVNet\<close> after a successful response of the broker.\<close>

definition CreateVNet_finish ::
  "world \<Rightarrow> string \<Rightarrow> string \<Rightarrow> TbVNetInfo \<Rightarrow> spiderVPCInfo \<Rightarrow> (error + TbVNetInfo) \<times> world" where
  "CreateVNet_finish w nsId vNetKey vNetInfo0 spResp =
     (let vNetInfo = vNetInfo0\<lparr>CspVNetId := SystemId (IId_spVPC spResp),
                                CspVNetName := NameId (IId_spVPC spResp),
                                CidrBlock_VNet := IPv4_CIDR_spVPC spResp,
                                KeyValueList_VNet := KeyValueList_spVPC spResp,
                                TagList_VNet := TagList_spVPC spResp\<rparr>;
          vNetInfo = vNetInfo\<lparr>SubnetInfoList_VNet := reconcile_subnets vNetInfo spResp\<rparr>;
          vNetInfo = vNetInfo\<lparr>Status_VNet :=
                       (if length (SubnetInfoList_VNet vNetInfo) = 0 then NetworkAvailable
                        else if length (SubnetInfoList_VNet vNetInfo) > 0 then NetworkInUse
                        else NetworkUnknown)\<rparr>
      in case kv_Put (kv w) vNetKey (VNetDoc vNetInfo) of
           Inl err \<Rightarrow> (Inl err, w)
         | Inr s1 \<Rightarrow>
             (case put_subnets s1 nsId (Id_VNet vNetInfo) (SubnetInfoList_VNet vNetInfo) of
                Inl err \<Rightarrow> (Inl err, w\<lparr>kv := s1\<rparr>)
              | Inr s2 \<Rightarrow>
                  (case kv_GetKv s2 vNetKey of
                     Inl err \<Rightarrow> (Inl err, w\<lparr>kv := s2\<rparr>)
                   | Inr None \<Rightarrow>
                       (Inl (ErrMsg (''does not exist, vNet: '' @ Id_VNet vNetInfo)), w\<lparr>kv := s2\<rparr>)
                   | Inr (Some (k, d)) \<Rightarrow>
                       (case Unmarshal_VNet d of
                          Inl err \<Rightarrow> (Inl err, w\<lparr>kv := s2\<rparr>)
                        | Inr stored \<Rightarrow> (Inr stored, w\<lparr>kv := s2\<rparr>)))))"

definition CreateVNet :: "env \<Rightarrow> world \<Rightarrow> string \<Rightarrow> TbVNetReq \<Rightarrow> (error + TbVNetInfo) \<times> world" where
  "CreateVNet e w nsId vNetReq =
     (case CreateVNet_prepare e w nsId vNetReq of
        (Inl err, w1) \<Rightarrow> (Inl err, w1)
      | (Inr (vNetInfo, uuid, vNetKey), w1) \<Rightarrow>
          (case spider_create_vpc (broker e) (CreateVNet_request vNetReq vNetInfo uuid) of
             Inl err \<Rightarrow> (Inl err, w1)
           | Inr spResp \<Rightarrow> CreateVNet_finish w1 nsId vNetKey vNetInfo spResp))"

subsection \<open>DeleteVNet and DeregisterVNet\<close>

text \<open>The loop that deletes the subnets listed under the vNet; it stops at the first error.\<close>

fun delete_subnets ::
  "env \<Rightarrow> world \<Rightarrow> string \<Rightarrow> string \<Rightarrow> (string \<times> doc) list \<Rightarrow> error option \<times> world" where
  "delete_subnets e w nsId vNetId [] = (None, w)"
| "delete_subnets e w nsId vNetId (keyValue # rest) =
     (case Unmarshal_Subnet (snd keyValue) of
        Inl err \<Rightarrow> (Some err, w)
      | Inr subnet \<Rightarrow>
          (case DeleteSubnet e w nsId vNetId (Id_Subnet subnet) of
             (Inl err, w1) \<Rightarrow> (Some err, w1)
           | (Inr msg, w1) \<Rightarrow> delete_subnets e w1 nsId vNetId rest))"

text \<open>
  The part of \<^verbatim>\<open>DeleteVNet\<close> (and, line for line, of \<^verbatim>\<open>DeregisterVNet\<close>) before the
  broker is called: the checks of the parameters and of the option, the guard on stored
  subnets, the deletion of the subnets, and the \<open>Put\<close> of the vNet with status
  \<open>Deleting\<close>.  It yields the stored object and its key.
\<close>

definition DeleteVNet_prepare ::
  "env \<Rightarrow> world \<Rightarrow> string \<Rightarrow> string \<Rightarrow> string \<Rightarrow> (error + TbVNetInfo \<times> string) \<times> world" where
  "DeleteVNet_prepare e w nsId vNetId withSubnets0 =
     (case CheckString nsId of
        Some err \<Rightarrow> (Inl err, w)
      | None \<Rightarrow>
     (case CheckString vNetId of
        Some err \<Rightarrow> (Inl err, w)
      | None \<Rightarrow>
     (if withSubnets0 \<noteq> [] \<and> withSubnets0 \<noteq> ''true'' \<and> withSubnets0 \<noteq> ''false''
      then (Inl (ErrMsg (''invalid option, withSubnets ('' @ withSubnets0 @ '')'')), w)
      else
       (let withSubnets = (if withSubnets0 = [] then ''false'' else withSubnets0);
            vNetKey = GenResourceKey nsId StrVNet vNetId
        in case kv_GetKvList (kv w) (vNetKey @ ''/subnet'') of
             Inl err \<Rightarrow> (Inl err, w)
           | Inr subnetsKv \<Rightarrow>
               if withSubnets = ''false'' \<and> length subnetsKv > 0
               then (Inl (ErrMsg (''the vNet ('' @ vNetId @ '') is in-use, may have subnets'')), w)
               else
                 (case delete_subnets e w nsId vNetId subnetsKv of
                    (Some err, w1) \<Rightarrow> (Inl err, w1)
                  | (None, w1) \<Rightarrow>
                      (case kv_GetKv (kv w1) vNetKey of
                         Inl err \<Rightarrow> (Inl err, w1)
                       | Inr None \<Rightarrow> (Inl (ErrMsg (''does not exist, vNet: '' @ vNetId)), w1)
                       | Inr (Some (k, d)) \<Rightarrow>
                           (case Unmarshal_VNet d of
                              Inl err \<Rightarrow> (Inl err, w1)
                            | Inr stored \<Rightarrow>
                                (let vNetInfo = stored\<lparr>Status_VNet := NetworkOnDeleting\<rparr> in
                                 case kv_Put (kv w1) vNetKey (VNetDoc vNetInfo) of
                                   Inl err \<Rightarrow> (Inl err, w1)
                                 | Inr s \<Rightarrow> (Inr (vNetInfo, vNetKey), w1\<lparr>kv := s\<rparr>)))))))))"

definition DeleteVNet :: "env \<Rightarrow> world \<Rightarrow> string \<Rightarrow> string \<Rightarrow> string \<Rightarrow> (error + SimpleMsg) \<times> world" where
  "DeleteVNet e w nsId vNetId withSubnets =
     (case DeleteVNet_prepare e w nsId vNetId withSubnets of
        (Inl err, w1) \<Rightarrow> (Inl err, w1)
      | (Inr (vNetInfo, vNetKey), w1) \<Rightarrow>
          (case spider_delete_vpc (broker e) (CspVNetName vNetInfo) (ConnectionName_VNet vNetInfo) of
             Inl err \<Rightarrow> (Inl err, w1)
           | Inr result \<Rightarrow>
               (case ParseBool result of
                  Inl err \<Rightarrow> (Inl err, w1)
                | Inr ok \<Rightarrow>
                    if \<not> ok
                    then (Inl (ErrMsg (''failed to delete the vNet ('' @ vNetId @ '')'')), w1)
                    else
                      (case kv_Delete (kv w1) vNetKey of
                         Inl err \<Rightarrow> (Inl err, w1)
                       | Inr s \<Rightarrow>
                           (Inr (zero_Msg\<lparr>Message := ''the vNet ('' @ vNetId @ '') has been deleted''\<rparr>),
                            w1\<lparr>kv := s\<rparr>)))))"


section \<open>Reading the store\<close>


text \<open>
  The keys that belong to a vNet: its own key and the keys below it.  An entry below the
  vNet is well formed when it holds a subnet under the key of that subnet's Id, as
  \<^verbatim>\<open>CreateVNet\<close> writes it.  A vNet is stored when the keys of the store are distinct,
  the key of the vNet holds a vNet, and every entry below it is well formed.
\<close>

definition under_vnet :: "string \<Rightarrow> string \<Rightarrow> string \<Rightarrow> bool" where
  "under_vnet nsId vNetId k =
     (k = GenResourceKey nsId StrVNet vNetId \<or>
      prefix (GenResourceKey nsId StrVNet vNetId @ ''/'') k)"

definition subnet_entry :: "string \<Rightarrow> string \<Rightarrow> string \<times> doc \<Rightarrow> bool" where
  "subnet_entry nsId vNetId kd =
     (case snd kd of
        SubnetDoc sn \<Rightarrow> fst kd = GenChildResourceKey nsId StrSubnet vNetId (Id_Subnet sn)
      | _ \<Rightarrow> False)"

definition vnet_stored :: "world \<Rightarrow> string \<Rightarrow> string \<Rightarrow> bool" where
  "vnet_stored w nsId vNetId =
     (distinct (map fst (kv w)) \<and>
      (case map_of (kv w) (GenResourceKey nsId StrVNet vNetId) of
         Some (VNetDoc v) \<Rightarrow> True
       | _ \<Rightarrow> False) \<and>
      list_all (\<lambda>kd. prefix (GenResourceKey nsId StrVNet vNetId @ ''/'') (fst kd) \<longrightarrow>
                      subnet_entry nsId vNetId kd) (kv w))"

section \<open>Credential registration\<close>

record CredentialReq =
  CredentialHolder_Req :: string
  ProviderName_Req :: string
  PublicKeyTokenId :: string
  EncryptedClientAesKeyByPublicKey :: string
  CredentialKeyValueList :: "KeyValue list"

record CredentialInfo =
  CredentialName_Info :: string
  CredentialHolder_Info :: string
  ProviderName_Info :: string
  KeyValueInfoList_Info :: "KeyValue list"
  AllConnections :: "ConnConfig list"

record SpiderRegionZoneInfo =
  RegionName_spRegion :: string
  ProviderName_spRegion :: string
  KeyValueInfoList_spRegion :: "KeyValue list"
  AvailableZoneList :: "string list"

record SpiderConnConfig =
  ConfigName_sp :: string
  ProviderName_sp :: string
  DriverName_sp :: string
  CredentialName_sp :: string
  RegionName_sp :: string

definition zero_CredentialInfo :: CredentialInfo where
  "zero_CredentialInfo = \<lparr>CredentialName_Info = [], CredentialHolder_Info = [],
     ProviderName_Info = [], KeyValueInfoList_Info = [], AllConnections = []\<rparr>"

text \<open>
  What \<^verbatim>\<open>RegisterCredential\<close> takes from outside the repository.  The Go library:
  \<^verbatim>\<open>rsa.DecryptOAEP\<close> with the stored private key, and the AES block decryption under a
  key (base64 decoding and CBC chaining are modelled below).  The constant
  \<^verbatim>\<open>model.DefaultCredentialHolder\<close> and the catalog \<^verbatim>\<open>RuntimeCloudInfo\<close>.  The broker:
  \<^verbatim>\<open>POST /credential\<close>, \<^verbatim>\<open>GET /region\<close>, \<^verbatim>\<open>POST /connectionconfig\<close>,
  \<^verbatim>\<open>GET /region/<name>\<close> and \<^verbatim>\<open>GET /allkeypair\<close> (the probe, which only fails or not).
\<close>

record registry =
  rsa_DecryptOAEP :: "PrivateKey \<Rightarrow> string \<Rightarrow> error + string"
  aes_decrypt_block :: "string \<Rightarrow> string \<Rightarrow> string"
  DefaultCredentialHolder :: string
  RuntimeCloudInfo :: CloudInfo
  spider_post_credential :: "CredentialInfo \<Rightarrow> error + CredentialInfo"
  spider_get_regions :: "error + SpiderRegionZoneInfo list"
  spider_post_connectionconfig :: "SpiderConnConfig \<Rightarrow> error + SpiderConnConfig"
  spider_get_region :: "string \<Rightarrow> error + SpiderRegionZoneInfo"
  spider_allkeypair :: "string \<Rightarrow> error option"

subsection \<open>Decrypting the values\<close>

text \<open>
  \<^verbatim>\<open>base64.StdEncoding.DecodeString\<close>: the standard alphabet with padding; line breaks are
  skipped; four characters give three bytes, and the last group may end in one or two
  padding characters.
\<close>

definition b64_value :: "char \<Rightarrow> nat option" where
  "b64_value c =
     (if is_upper c then Some ((of_char c :: nat) - 65)
      else if is_lower c then Some ((of_char c :: nat) - 97 + 26)
      else if is_digit c then Some ((of_char c :: nat) - 48 + 52)
      else if c = CHR ''+'' then Some 62
      else if c = CHR ''/'' then Some 63
      else None)"

definition corrupt_input :: "error + string" where
  "corrupt_input = Inl (ErrMsg ''illegal base64 data'')"

fun b64_quanta :: "string \<Rightarrow> error + string" where
  "b64_quanta [] = Inr []"
| "b64_quanta (a # b # c # d # rest) =
     (case (b64_value a, b64_value b) of
        (Some va, Some vb) \<Rightarrow>
          if c = CHR ''=''
          then (if d = CHR ''='' \<and> rest = [] then Inr [char_of (va * 4 + vb div 16)]
                else corrupt_input)
          else
            (case b64_value c of
               None \<Rightarrow> corrupt_input
             | Some vc \<Rightarrow>
                 if d = CHR ''=''
                 then (if rest = []
                       then Inr [char_of (va * 4 + vb div 16),
                                 char_of ((vb mod 16) * 16 + vc div 4)]
                       else corrupt_input)
                 else
                   (case b64_value d of
                      None \<Rightarrow> corrupt_input
                    | Some vd \<Rightarrow>
                        (case b64_quanta rest of
                           Inl err \<Rightarrow> Inl err
                         | Inr others \<Rightarrow>
                             Inr (char_of (va * 4 + vb div 16) #
                                  char_of ((vb mod 16) * 16 + vc div 4) #
                                  char_of ((vc mod 4) * 64 + vd) # others))))
      | _ \<Rightarrow> corrupt_input)"
| "b64_quanta _ = corrupt_input"

definition base64_DecodeString :: "string \<Rightarrow> error + string" where
  "base64_DecodeString s = b64_quanta (filter (\<lambda>c. c \<noteq> CHR 0x0A \<and> c \<noteq> CHR 0x0D) s)"

definition error_text :: "error \<Rightarrow> string" where
  "error_text err =
     (case err of ErrMsg m \<Rightarrow> m | ValidationErr m \<Rightarrow> m | BrokerErr m \<Rightarrow> m
                | KvErr m \<Rightarrow> m | JsonErr m \<Rightarrow> m | Panic m \<Rightarrow> m)"

text \<open>\<^verbatim>\<open>fmt.Errorf("...: %w", err)\<close>; a panic is not an error value and passes through.\<close>

definition wrap_error :: "string \<Rightarrow> error \<Rightarrow> error" where
  "wrap_error msg err = (case err of Panic m \<Rightarrow> Panic m | _ \<Rightarrow> ErrMsg (msg @ error_text err))"

text \<open>
  \<^verbatim>\<open>unpad\<close>: \<^verbatim>\<open>data[length-1]\<close> on an empty slice is an index out of range.
\<close>

definition unpad :: "string \<Rightarrow> nat \<Rightarrow> error + string" where
  "unpad data blockSize =
     (let length' = length data in
      if length' = 0 then Inl (Panic ''index out of range [-1]'')
      else let unpadding = (of_char (data ! (length' - 1)) :: nat) in
        if unpadding > blockSize \<or> unpadding > length'
        then Inl (ErrMsg ''invalid padding size'')
        else Inr (take (length' - unpadding) data))"

text \<open>
  \<^verbatim>\<open>cipher.NewCBCDecrypter(aesCipher, iv).CryptBlocks(dst, src)\<close> on whole blocks: block
  \<open>i\<close> of the plain text is the decryption of block \<open>i\<close> of the cipher text, combined by
  exclusive or with the block before it (the initialisation vector for the first).
\<close>

definition xor_bytes :: "string \<Rightarrow> string \<Rightarrow> string" where
  "xor_bytes a b = map (\<lambda>(x, y). char_of ((of_char x :: nat) XOR (of_char y :: nat))) (zip a b)"

definition block_at :: "string \<Rightarrow> nat \<Rightarrow> string" where
  "block_at src i = take 16 (drop (16 * i) src)"

definition CryptBlocks :: "(string \<Rightarrow> string) \<Rightarrow> string \<Rightarrow> string \<Rightarrow> string" where
  "CryptBlocks decrypt iv src =
     concat (map (\<lambda>i. xor_bytes (decrypt (block_at src i))
                                  (if i = 0 then iv else block_at src (i - 1)))
                 [0..<length src div 16])"

definition aes_BlockSize :: nat where
  "aes_BlockSize = 16"

text \<open>
  The body of the loop over \<^verbatim>\<open>req.CredentialKeyValueList\<close>.  \<^verbatim>\<open>aes.NewCipher\<close> fails on a
  key that is not 16, 24 or 32 bytes long.  The slices \<^verbatim>\<open>encryptedBytes[:aes.BlockSize]\<close>
  and \<^verbatim>\<open>encryptedBytes[aes.BlockSize:]\<close> panic when fewer than 16 bytes were decoded (the
  first when the capacity of the decoded slice is below 16, the second otherwise);
  \<^verbatim>\<open>CryptBlocks\<close> panics when the cipher text is not a whole number of blocks.
\<close>

definition decrypt_value :: "registry \<Rightarrow> string \<Rightarrow> KeyValue \<Rightarrow> error + KeyValue" where
  "decrypt_value reg aesKey keyValue =
     (case base64_DecodeString (Value keyValue) of
        Inl err \<Rightarrow> Inl (wrap_error ''failed to decode encrypted value: '' err)
      | Inr encryptedBytes \<Rightarrow>
          if length aesKey \<noteq> 16 \<and> length aesKey \<noteq> 24 \<and> length aesKey \<noteq> 32
          then Inl (ErrMsg ''failed to create AES cipher: crypto/aes: invalid key size'')
          else if length encryptedBytes < aes_BlockSize
          then Inl (Panic ''slice bounds out of range'')
          else
            (let iv = take aes_BlockSize encryptedBytes;
                 ciphertext = drop aes_BlockSize encryptedBytes
             in if length ciphertext mod aes_BlockSize \<noteq> 0
                then Inl (Panic ''crypto/cipher: input not full blocks'')
                else
                  (case unpad (CryptBlocks (aes_decrypt_block reg aesKey) iv ciphertext)
                          aes_BlockSize of
                     Inl err \<Rightarrow> Inl (wrap_error ''failed to unpad decrypted value: '' err)
                   | Inr decryptedValue \<Rightarrow>
                       Inr \<lparr>Key = Key keyValue, Value = decryptedValue\<rparr>)))"

fun decrypt_all :: "registry \<Rightarrow> string \<Rightarrow> KeyValue list \<Rightarrow> error + KeyValue list" where
  "decrypt_all reg aesKey [] = Inr []"
| "decrypt_all reg aesKey (keyValue # rest) =
     (case decrypt_value reg aesKey keyValue of
        Inl err \<Rightarrow> Inl err
      | Inr decrypted \<Rightarrow>
          (case decrypt_all reg aesKey rest of
             Inl err \<Rightarrow> Inl err
           | Inr others \<Rightarrow> Inr (decrypted # others)))"

text \<open>\<^verbatim>\<open>strings.ReplaceAll(value, "\\n", "\n")\<close>: a backslash and an \<open>n\<close> become a line feed.\<close>

fun restore_newlines :: "string \<Rightarrow> string" where
  "restore_newlines [] = []"
| "restore_newlines [c] = [c]"
| "restore_newlines (c # d # rest) =
     (if c = CHR 0x5C \<and> d = CHR ''n'' then CHR 0x0A # restore_newlines rest
      else c # restore_newlines (d # rest))"

subsection \<open>Connection configurations\<close>

fun unmarshal_conns :: "(string \<times> doc) list \<Rightarrow> error + ConnConfig list" where
  "unmarshal_conns [] = Inr []"
| "unmarshal_conns (v # rest) =
     (case Unmarshal_ConnConfig (snd v) of
        Inl err \<Rightarrow> Inl err
      | Inr tempObj \<Rightarrow>
          (case unmarshal_conns rest of
             Inl err \<Rightarrow> Inl err
           | Inr others \<Rightarrow> Inr (tempObj # others)))"

definition GetConnConfigList :: "kvs \<Rightarrow> string \<Rightarrow> bool \<Rightarrow> bool \<Rightarrow> error + ConnConfig list" where
  "GetConnConfigList s filterCredentialHolder filterVerified filterRegionRepresentative =
     (case kv_GetKvList s ''/connection'' of
        Inl err \<Rightarrow> Inl err
      | Inr keyValue \<Rightarrow>
          (case unmarshal_conns (FilterKvListBy keyValue ''/connection'' 1) of
             Inl err \<Rightarrow> Inl err
           | Inr conns \<Rightarrow>
               (let byHolder = (if filterCredentialHolder \<noteq> []
                                then filter (\<lambda>connConfig. EqualFold (CredentialHolder connConfig)
                                                                filterCredentialHolder) conns
                                else conns);
                    byVerified = (if filterVerified then filter Verified byHolder else byHolder);
                    byRepresentative = (if filterRegionRepresentative
                                        then filter RegionRepresentative byVerified
                                        else byVerified)
                in Inr byRepresentative)))"

text \<open>The loop over the key-value list of the region in \<^verbatim>\<open>RegisterConnectionConfig\<close>.\<close>

definition region_zone_of :: "KeyValue list \<Rightarrow> RegionZoneInfo" where
  "region_zone_of keyValues =
     fold (\<lambda>keyVal regionZoneInfo.
             (let r1 = (if Key keyVal = ''Region''
                        then regionZoneInfo\<lparr>AssignedRegion := Value keyVal\<rparr>
                        else regionZoneInfo)
              in if Key keyVal = ''Zone'' then r1\<lparr>AssignedZone := Value keyVal\<rparr> else r1))
          keyValues zero_RegionZoneInfo"

definition RegisterConnectionConfig :: "registry \<Rightarrow> kvs \<Rightarrow> ConnConfig \<Rightarrow> (error + ConnConfig) \<times> kvs" where
  "RegisterConnectionConfig reg s connConfig =
     (let requestBody = \<lparr>ConfigName_sp = ConfigName connConfig,
                          ProviderName_sp = ProviderName connConfig,
                          DriverName_sp = DriverName connConfig,
                          CredentialName_sp = CredentialName connConfig,
                          RegionName_sp = RegionZoneInfoName connConfig\<rparr>
      in case spider_post_connectionconfig reg requestBody of
           Inl err \<Rightarrow> (Inl err, s)
         | Inr callResult \<Rightarrow>
             (let connection = zero_ConnConfig\<lparr>ConfigName := ConfigName_sp callResult,
                                  ProviderName := ToLower (ProviderName_sp callResult),
                                  DriverName := DriverName_sp callResult,
                                  CredentialName := CredentialName_sp callResult,
                                  RegionZoneInfoName := RegionName_sp callResult,
                                  CredentialHolder := CredentialHolder connConfig\<rparr>
              in case spider_get_region reg (RegionZoneInfoName connection) of
                   Inl err \<Rightarrow> (Inl err, s)
                 | Inr callResultRegion \<Rightarrow>
                     (let connection = connection\<lparr>RegionZoneInfo_Conn :=
                            region_zone_of (KeyValueInfoList_spRegion callResultRegion)\<rparr>
                      in case GetRegion (RuntimeCloudInfo reg) (ProviderName connection)
                                (AssignedRegion (RegionZoneInfo_Conn connection)) of
                           Inl err \<Rightarrow> (Inl err, s)
                         | Inr regionDetail \<Rightarrow>
                             (let connection = connection\<lparr>RegionDetail_Conn := regionDetail\<rparr>
                              in case kv_Put s (GenConnectionKey (ConfigName connection))
                                        (ConnDoc connection) of
                                   Inl err \<Rightarrow> (Inl err, s)
                                 | Inr s1 \<Rightarrow> (Inr connection, s1)))))"

subsection \<open>RegisterCredential\<close>

text \<open>
  The loop that registers a connection configuration for every region of the provider
  that the broker lists; it stops at the first error.
\<close>

fun register_connections ::
  "registry \<Rightarrow> kvs \<Rightarrow> CredentialInfo \<Rightarrow> CSPDetail \<Rightarrow> string \<Rightarrow> SpiderRegionZoneInfo list \<Rightarrow>
   error option \<times> kvs" where
  "register_connections reg s callResult cspDetail holder [] = (None, s)"
| "register_connections reg s callResult cspDetail holder (region # rest) =
     (if ToLower (ProviderName_spRegion region) = ProviderName_Info callResult
      then
        (let configName =
               (if CredentialHolder_Info callResult = DefaultCredentialHolder reg
                then RegionName_spRegion region
                else CredentialHolder_Info callResult @ ''-'' @ RegionName_spRegion region);
             connConfig = zero_ConnConfig\<lparr>ConfigName := configName,
                            ProviderName := ToUpper (ProviderName_Info callResult),
                            DriverName := Driver cspDetail,
                            CredentialName := CredentialName_Info callResult,
                            RegionZoneInfoName := RegionName_spRegion region,
                            CredentialHolder := holder\<rparr>
         in case RegisterConnectionConfig reg s connConfig of
              (Inl err, s1) \<Rightarrow> (Some err, s1)
            | (Inr registered, s1) \<Rightarrow>
                register_connections reg s1 callResult cspDetail holder rest)
      else register_connections reg s callResult cspDetail holder rest)"

text \<open>
  The probe of one connection (the body of the goroutine, without its random sleep):
  \<^verbatim>\<open>CheckConnConfigAvailable\<close> is true when \<^verbatim>\<open>GET /allkeypair\<close> returns no error.
\<close>

definition verify_conn :: "registry \<Rightarrow> ConnConfig \<Rightarrow> ConnConfig" where
  "verify_conn reg connConfig0 =
     (let verified = (spider_allkeypair reg (ConfigName connConfig0) = None);
          connConfig = connConfig0\<lparr>Verified := verified\<rparr>
      in if verified
         then (case GetRegion (RuntimeCloudInfo reg) (ProviderName connConfig)
                      (RegionName (RegionDetail_Conn connConfig)) of
                 Inl err \<Rightarrow> connConfig\<lparr>Verified := False\<rparr>
               | Inr regionInfo \<Rightarrow> connConfig\<lparr>RegionDetail_Conn := regionInfo\<rparr>)
         else connConfig)"

text \<open>
  The loop over the results of the probes.  The goroutines deliver their results in an
  order the scheduler decides; the model takes them in the order of the list.
\<close>

fun put_verified :: "kvs \<Rightarrow> ConnConfig list \<Rightarrow> error + kvs" where
  "put_verified s [] = Inr s"
| "put_verified s (result # rest) =
     (if Verified result
      then (case kv_Put s (GenConnectionKey (ConfigName result)) (ConnDoc result) of
              Inl err \<Rightarrow> Inl err
            | Inr s1 \<Rightarrow> put_verified s1 rest)
      else put_verified s rest)"

definition verify_connections :: "registry \<Rightarrow> kvs \<Rightarrow> string \<Rightarrow> CredentialInfo \<Rightarrow> error + kvs" where
  "verify_connections reg s holder callResult =
     (case GetConnConfigList s holder False False of
        Inl err \<Rightarrow> Inl err
      | Inr allConnections \<Rightarrow>
          (let filteredConnections =
                 map (\<lambda>connConfig. connConfig\<lparr>ProviderName := ToLower (ProviderName connConfig)\<rparr>)
                     (filter (\<lambda>connConfig. EqualFold (ProviderName_Info callResult)
                                                     (ProviderName connConfig))
                             allConnections)
           in put_verified s (map (verify_conn reg) filteredConnections)))"

text \<open>
  The map \<^verbatim>\<open>regionRepresentative\<close>, as an association list in the order of insertion: the
  first connection of each \<^verbatim>\<open><provider>-<region>\<close> whose \<^verbatim>\<open>RegionZoneInfoName\<close> is that
  text, case-insensitively.
\<close>

definition elect_step :: "string \<Rightarrow> ConnConfig \<Rightarrow> (string \<times> ConnConfig) list \<Rightarrow> (string \<times> ConnConfig) list" where
  "elect_step providerName connConfig regionRepresentative =
     (let pfx = providerName @ ''-'' @ RegionName (RegionDetail_Conn connConfig) in
      if EqualFold (RegionZoneInfoName connConfig) pfx
      then (if map_of regionRepresentative pfx = None
            then regionRepresentative @ [(pfx, connConfig)]
            else regionRepresentative)
      else regionRepresentative)"

definition elect_representatives :: "string \<Rightarrow> ConnConfig list \<Rightarrow> (string \<times> ConnConfig) list" where
  "elect_representatives providerName allConnections =
     fold (elect_step providerName) allConnections []"

fun put_representatives :: "kvs \<Rightarrow> (string \<times> ConnConfig) list \<Rightarrow> error + kvs" where
  "put_representatives s [] = Inr s"
| "put_representatives s (entry # rest) =
     (case kv_Put s (GenConnectionKey (ConfigName (snd entry)))
             (ConnDoc ((snd entry)\<lparr>RegionRepresentative := True\<rparr>)) of
        Inl err \<Rightarrow> Inl err
      | Inr s1 \<Rightarrow> put_representatives s1 rest)"

definition set_representatives :: "kvs \<Rightarrow> string \<Rightarrow> string \<Rightarrow> error + kvs" where
  "set_representatives s holder providerName =
     (case GetConnConfigList s holder False False of
        Inl err \<Rightarrow> Inl err
      | Inr allConnections \<Rightarrow>
          put_representatives s (elect_representatives providerName allConnections))"

text \<open>
  A representative that is not among the verified connections takes the region and zone
  of the first verified connection whose name starts with its own, and is stored again.
\<close>

definition with_verified_zone :: "ConnConfig list \<Rightarrow> ConnConfig \<Rightarrow> ConnConfig" where
  "with_verified_zone verifiedConnections connConfig =
     (case find (\<lambda>verifiedConnConfig.
                   prefix (ConfigName connConfig) (ConfigName verifiedConnConfig))
                verifiedConnections of
        Some verifiedConnConfig \<Rightarrow>
          connConfig\<lparr>RegionZoneInfoName := RegionZoneInfoName verifiedConnConfig,
                     RegionZoneInfo_Conn := RegionZoneInfo_Conn verifiedConnConfig\<rparr>
      | None \<Rightarrow> connConfig)"

fun put_unverified_representatives ::
  "string \<Rightarrow> ConnConfig list \<Rightarrow> kvs \<Rightarrow> ConnConfig list \<Rightarrow> error + kvs" where
  "put_unverified_representatives providerName verifiedConnections s [] = Inr s"
| "put_unverified_representatives providerName verifiedConnections s (connConfig # rest) =
     (if EqualFold providerName (ProviderName connConfig) \<and>
         \<not> list_ex (\<lambda>verifiedConnConfig.
                       EqualFold (ConfigName connConfig) (ConfigName verifiedConnConfig))
                    verifiedConnections
      then (case kv_Put s (GenConnectionKey (ConfigName connConfig))
                    (ConnDoc (with_verified_zone verifiedConnections connConfig)) of
              Inl err \<Rightarrow> Inl err
            | Inr s1 \<Rightarrow> put_unverified_representatives providerName verifiedConnections s1 rest)
      else put_unverified_representatives providerName verifiedConnections s rest)"

text \<open>
  The error of the second listing is not checked in the source; the listing reads the store
  that the first one has just read.
\<close>

definition update_representative_zones :: "kvs \<Rightarrow> string \<Rightarrow> string \<Rightarrow> error + kvs" where
  "update_representative_zones s holder providerName =
     (case GetConnConfigList s holder True False of
        Inl err \<Rightarrow> Inl err
      | Inr verifiedConnections \<Rightarrow>
          (let allRepresentativeRegionConnections =
                 (case GetConnConfigList s holder False True of Inl err \<Rightarrow> [] | Inr l \<Rightarrow> l)
           in put_unverified_representatives providerName verifiedConnections s
                allRepresentativeRegionConnections))"

text \<open>
  \<^verbatim>\<open>RegisterCredential\<close> after the private key has been deleted: the credential goes to the
  broker, the connections are registered, probed, and the representatives are elected.
\<close>

definition RegisterCredential_rest ::
  "registry \<Rightarrow> world \<Rightarrow> CredentialReq \<Rightarrow> KeyValue list \<Rightarrow> (error + CredentialInfo) \<times> world" where
  "RegisterCredential_rest reg w req decryptedKeyValueList =
     (let holder = ToLower (CredentialHolder_Req req);
          provider = ToLower (ProviderName_Req req);
          genneratedCredentialName =
            (if holder = DefaultCredentialHolder reg then provider else holder @ ''-'' @ provider);
          reqToSpider = zero_CredentialInfo\<lparr>
            CredentialName_Info := genneratedCredentialName,
            ProviderName_Info := ToUpper provider,
            KeyValueInfoList_Info :=
              map (\<lambda>keyValue. keyValue\<lparr>Value := restore_newlines (Value keyValue)\<rparr>)
                  decryptedKeyValueList\<rparr>
      in case spider_post_credential reg reqToSpider of
           Inl err \<Rightarrow> (Inl err, w)
         | Inr callResult0 \<Rightarrow>
     (let callResult = callResult0\<lparr>
            CredentialHolder_Info := holder,
            ProviderName_Info := ToLower (ProviderName_Info callResult0),
            KeyValueInfoList_Info :=
              map (\<lambda>keyValue. keyValue\<lparr>Value := ''************''\<rparr>)
                  (KeyValueInfoList_Info callResult0)\<rparr>
      in case map_of (CSPs (RuntimeCloudInfo reg)) (ProviderName_Info callResult) of
           None \<Rightarrow> (Inl (ErrMsg (''cloudType '' @ quoted (ProviderName_Info callResult) @
                                  '' not found'')), w)
         | Some cspDetail \<Rightarrow>
     (case spider_get_regions reg of
        Inl err \<Rightarrow> (Inl err, w)
      | Inr allRegisteredRegions \<Rightarrow>
     (case register_connections reg (kv w) callResult cspDetail holder allRegisteredRegions of
        (Some err, s1) \<Rightarrow> (Inl err, w\<lparr>kv := s1\<rparr>)
      | (None, s1) \<Rightarrow>
     (case verify_connections reg s1 holder callResult of
        Inl err \<Rightarrow> (Inl err, w\<lparr>kv := s1\<rparr>)
      | Inr s2 \<Rightarrow>
     (case set_representatives s2 holder provider of
        Inl err \<Rightarrow> (Inl err, w\<lparr>kv := s2\<rparr>)
      | Inr s3 \<Rightarrow>
     (case update_representative_zones s3 holder provider of
        Inl err \<Rightarrow> (Inl err, w\<lparr>kv := s3\<rparr>)
      | Inr s4 \<Rightarrow>
     (case GetConnConfigList s4 holder False False of
        Inl err \<Rightarrow> (Inl err, w\<lparr>kv := s4\<rparr>)
      | Inr conns \<Rightarrow> (Inr (callResult\<lparr>AllConnections := conns\<rparr>), w\<lparr>kv := s4\<rparr>)))))))))"

text \<open>
  \<^verbatim>\<open>RegisterCredential\<close>.  The private key is looked up, the AES key and the values are
  decrypted, and only then is the private key deleted from \<^verbatim>\<open>privateKeyStore\<close>: each
  return before that line leaves the store of private keys as it was.
\<close>

definition RegisterCredential ::
  "registry \<Rightarrow> world \<Rightarrow> CredentialReq \<Rightarrow> (error + CredentialInfo) \<times> world" where
  "RegisterCredential reg w req =
     (case map_of (privateKeyStore w) (PublicKeyTokenId req) of
        None \<Rightarrow>
          (Inl (ErrMsg (''private key not found for token ID: '' @ PublicKeyTokenId req)), w)
      | Some privateKey \<Rightarrow>
     (case base64_DecodeString (EncryptedClientAesKeyByPublicKey req) of
        Inl err \<Rightarrow> (Inl (wrap_error ''failed to decode encrypted AES key: '' err), w)
      | Inr encryptedAesKey \<Rightarrow>
     (case rsa_DecryptOAEP reg privateKey encryptedAesKey of
        Inl err \<Rightarrow> (Inl (wrap_error ''failed to decrypt AES key: '' err), w)
      | Inr aesKey \<Rightarrow>
     (case decrypt_all reg aesKey (CredentialKeyValueList req) of
        Inl err \<Rightarrow> (Inl err, w)
      | Inr decryptedKeyValueList \<Rightarrow>
          RegisterCredential_rest reg
            (w\<lparr>privateKeyStore := AList.delete (PublicKeyTokenId req) (privateKeyStore w)\<rparr>)
            req decryptedKeyValueList))))"

text \<open>The checks that precede the deletion of the private key all succeed.\<close>

definition decrypts :: "registry \<Rightarrow> world \<Rightarrow> CredentialReq \<Rightarrow> bool" where
  "decrypts reg w req =
     (case map_of (privateKeyStore w) (PublicKeyTokenId req) of
        None \<Rightarrow> False
      | Some privateKey \<Rightarrow>
          (case base64_DecodeString (EncryptedClientAesKeyByPublicKey req) of
             Inl err \<Rightarrow> False
           | Inr encryptedAesKey \<Rightarrow>
               (case rsa_DecryptOAEP reg privateKey encryptedAesKey of
                  Inl err \<Rightarrow> False
                | Inr aesKey \<Rightarrow>
                    (case decrypt_all reg aesKey (CredentialKeyValueList req) of
                       Inl err \<Rightarrow> False
                     | Inr decryptedKeyValueList \<Rightarrow> True))))"

subsection \<open>Representative connections in the store\<close>

text \<open>
  The entries that \<^verbatim>\<open>GetConnConfigList\<close> reads are those one segment below
  \<^verbatim>\<open>/connection\<close>.  With a credential holder as its filter it keeps the connections of
  that holder (compared case-insensitively); with an empty filter it keeps all.  An entry
  is a representative of the holder when it is such an entry, belongs to the holder and
  has \<open>RegionRepresentative\<close> set.  \<open>entry_pair\<close> is the provider and the region of
  an entry.
\<close>

definition conn_key :: "string \<Rightarrow> bool" where
  "conn_key k = (depth_after ''/connection'' k = Some 1)"

definition holder_match :: "string \<Rightarrow> ConnConfig \<Rightarrow> bool" where
  "holder_match holder c = (holder = [] \<or> EqualFold (CredentialHolder c) holder)"

definition representative_entry :: "string \<Rightarrow> string \<times> doc \<Rightarrow> bool" where
  "representative_entry holder kd =
     (conn_key (fst kd) \<and>
      (case snd kd of
         ConnDoc c \<Rightarrow> holder_match holder c \<and> RegionRepresentative c
       | _ \<Rightarrow> False))"

definition entry_pair :: "string \<times> doc \<Rightarrow> string \<times> string" where
  "entry_pair kd =
     (case snd kd of
        ConnDoc c \<Rightarrow> (ProviderName c, RegionName (RegionDetail_Conn c))
      | _ \<Rightarrow> ([], []))"

definition representatives_of :: "kvs \<Rightarrow> string \<Rightarrow> string \<times> string \<Rightarrow> (string \<times> doc) list" where
  "representatives_of s holder pair =
     filter (\<lambda>kd. representative_entry holder kd \<and> entry_pair kd = pair) s"

text \<open>All representatives stored under \<^verbatim>\<open>/connection/\<close> for a provider and region, of any holder.\<close>

definition all_representatives_of :: "kvs \<Rightarrow> string \<times> string \<Rightarrow> (string \<times> doc) list" where
  "all_representatives_of s pair = representatives_of s [] pair"

section \<open>Sample environments and states\<close>

text \<open>
  A broker that answers every request with success: the create call echoes the names it
  was sent as \<open>NameId\<close> and prefixes them for \<open>SystemId\<close>; the delete calls answer
  \<^verbatim>\<open>true\<close>.  A broker that fails every request.  A catalog with one provider and region.
\<close>

definition echo_subnet :: "spiderAddSubnetRequestInfo \<Rightarrow> spiderSubnetInfo" where
  "echo_subnet r =
     \<lparr>IId_spSubnet = \<lparr>NameId = Name_spAddSubnet r, SystemId = ''subnet-'' @ Name_spAddSubnet r\<rparr>,
      Zone_spSubnet = Zone_spAddSubnet r,
      IPv4_CIDR_spSubnet = IPv4_CIDR_spAddSubnet r,
      TagList_spSubnet = TagList_spAddSubnet r,
      KeyValueList_spSubnet = []\<rparr>"

definition echo_vpc :: "spiderCreateVPCRequest \<Rightarrow> spiderVPCInfo" where
  "echo_vpc r =
     \<lparr>IId_spVPC = \<lparr>NameId = Name_spReqInfo (ReqInfo r),
                   SystemId = ''vpc-'' @ Name_spReqInfo (ReqInfo r)\<rparr>,
      IPv4_CIDR_spVPC = IPv4_CIDR_spReqInfo (ReqInfo r),
      SubnetInfoList_spVPC = map echo_subnet (SubnetInfoList_spReqInfo (ReqInfo r)),
      TagList_spVPC = [],
      KeyValueList_spVPC = []\<rparr>"

definition ok_spider :: spider where
  "ok_spider =
     \<lparr>spider_create_vpc = (\<lambda>r. Inr (echo_vpc r)),
      spider_delete_vpc = (\<lambda>name conn. Inr ''true''),
      spider_dereg_vpc = (\<lambda>name conn. Inr ''true''),
      spider_delete_subnet = (\<lambda>vpc name conn. Inr ''true'')\<rparr>"



definition sample_cloud :: CloudInfo where
  "sample_cloud =
     \<lparr>CSPs = [(''aws'', \<lparr>Driver = ''aws-driver-v1.0.so'',
                          Regions = [(''us-east-1'',
                                      \<lparr>RegionId = ''us-east-1'', RegionName = ''us-east-1'',
                                       Zones = [''us-east-1a'', ''us-east-1b'']\<rparr>)]\<rparr>)]\<rparr>"

definition sample_env :: "spider \<Rightarrow> env" where
  "sample_env b =
     \<lparr>uid_of = (\<lambda>n. ''uid'' @ replicate n (CHR ''x'')),
      field_errors = (\<lambda>r. []),
      ValidateNetwork = (\<lambda>cidr subnets. None),
      cloud = sample_cloud,
      broker = b\<rparr>"

definition empty_world :: world where
  "empty_world = \<lparr>kv = [], uid_count = 0, privateKeyStore = []\<rparr>"

definition sample_subnet_req :: "string \<Rightarrow> string \<Rightarrow> TbSubnetReq" where
  "sample_subnet_req name cidr =
     \<lparr>Name_SubnetReq = name, IPv4_CIDR_SubnetReq = cidr, Zone_SubnetReq = ''us-east-1a'',
      TagList_SubnetReq = []\<rparr>"

definition sample_req :: TbVNetReq where
  "sample_req =
     \<lparr>Name_VNetReq = ''vnet1'', ConnectionName_VNetReq = ''aws-us-east-1'',
      CidrBlock_VNetReq = ''10.0.0.0/16'',
      SubnetInfoList_VNetReq = [sample_subnet_req ''sn1'' ''10.0.1.0/24'',
                                sample_subnet_req ''sn2'' ''10.0.2.0/24''],
      Description_VNetReq = [], TagList_VNetReq = []\<rparr>"

text \<open>The state after \<open>sample_req\<close> was created in namespace \<^verbatim>\<open>default\<close>.\<close>

definition stored_world :: world where
  "stored_world = snd (CreateVNet (sample_env ok_spider) empty_world ''default'' sample_req)"



text \<open>
  A registry for the samples.  The RSA decryption stands in for a key pair: the private
  key \<open>n\<close> opens the text \<open>n\<close> zero bytes long and gives a 16-byte AES key.  The AES block
  decryption is the identity.  The broker lists one region of \<^verbatim>\<open>aws\<close> with one zone, echoes
  credentials and connection configurations, and the probe fails for the connections of
  the region without a zone.
\<close>

definition sample_spider_regions :: "SpiderRegionZoneInfo list" where
  "sample_spider_regions =
     [\<lparr>RegionName_spRegion = ''aws-us-east-1'', ProviderName_spRegion = ''AWS'',
       KeyValueInfoList_spRegion = [\<lparr>Key = ''Region'', Value = ''us-east-1''\<rparr>,
                                    \<lparr>Key = ''Zone'', Value = ''us-east-1a''\<rparr>],
       AvailableZoneList = []\<rparr>,
      \<lparr>RegionName_spRegion = ''aws-us-east-1-us-east-1a'', ProviderName_spRegion = ''AWS'',
       KeyValueInfoList_spRegion = [\<lparr>Key = ''Region'', Value = ''us-east-1''\<rparr>,
                                    \<lparr>Key = ''Zone'', Value = ''us-east-1a''\<rparr>],
       AvailableZoneList = [''us-east-1a'', ''us-east-1b'']\<rparr>]"

definition sample_registry :: registry where
  "sample_registry =
     \<lparr>rsa_DecryptOAEP = (\<lambda>privateKey text.
         if text = replicate privateKey (CHR 0x00) then Inr ''0123456789abcdef''
         else Inl (ErrMsg ''crypto/rsa: decryption error'')),
      aes_decrypt_block = (\<lambda>key block. block),
      DefaultCredentialHolder = ''admin'',
      RuntimeCloudInfo = sample_cloud,
      spider_post_credential = (\<lambda>c. Inr c),
      spider_get_regions = Inr sample_spider_regions,
      spider_post_connectionconfig = (\<lambda>c. Inr c),
      spider_get_region = (\<lambda>name.
         case find (\<lambda>r. RegionName_spRegion r = name) sample_spider_regions of
           Some r \<Rightarrow> Inr r
         | None \<Rightarrow> Inl (BrokerErr ''404'')),
      spider_allkeypair = (\<lambda>name.
         if suffix ''aws-us-east-1'' name then Some (BrokerErr ''no zone'') else None)\<rparr>"

text \<open>
  A state with two private keys, and requests under them: \<^verbatim>\<open>AAAA\<close> is the base64 text of
  three zero bytes, the token of the request.
\<close>

definition keyed_world :: world where
  "keyed_world = \<lparr>kv = [], uid_count = 0, privateKeyStore = [(''token3'', 3), (''token6'', 6)]\<rparr>"

definition sample_credential :: "string \<Rightarrow> string \<Rightarrow> string \<Rightarrow> KeyValue list \<Rightarrow> CredentialReq" where
  "sample_credential holder token aesKey keyValues =
     \<lparr>CredentialHolder_Req = holder, ProviderName_Req = ''aws'', PublicKeyTokenId = token,
      EncryptedClientAesKeyByPublicKey = aesKey, CredentialKeyValueList = keyValues\<rparr>"

text \<open>The state after \<^verbatim>\<open>alice\<close> and then \<^verbatim>\<open>bob\<close> have registered a credential for \<^verbatim>\<open>aws\<close>.\<close>

definition alice_world :: world where
  "alice_world =
     snd (RegisterCredential sample_registry keyed_world
            (sample_credential ''alice'' ''token3'' ''AAAA'' []))"

definition alice_bob_world :: world where
  "alice_bob_world =
     snd (RegisterCredential sample_registry alice_world
            (sample_credential ''bob'' ''token6'' ''AAAAAAAA'' []))"

section \<open>CheckString and the name rule\<close>









text \<open>On ASCII names the one-pass rule reads as the error message of \<^verbatim>\<open>CheckString\<close> puts it.\<close>

lemma cls_alnum_ascii:
  "is_ascii c \<Longrightarrow>
   cls_alnum (c # cs) = (if is_digit c \<or> is_letter c then Some cs else None)"
  by (auto simp: cls_alnum_def cls_letter_def is_ascii_def)

lemma rest_ok_ascii:
  "list_all is_ascii s \<Longrightarrow>
   rest_ok ok s =
     (list_all (\<lambda>c. is_letter c \<or> is_digit c \<or> c = CHR ''-'' \<or> c = CHR ''+'') s \<and>
      (if s = [] then ok else is_letter (last s) \<or> is_digit (last s)))"
proof (induction s arbitrary: ok)
  case Nil
  then show ?case by (simp add: rest_ok.simps)
next
  case (Cons c cs)
  then have c: "is_ascii c" and cs: "list_all is_ascii cs" by auto
  have nd: "c = CHR ''-'' \<or> c = CHR ''+'' \<Longrightarrow> \<not> is_letter c \<and> \<not> is_digit c"
    by (auto simp: is_letter_def is_lower_def is_upper_def is_digit_def)
  show ?case
    using Cons.IH[OF cs] nd
    by (subst rest_ok.simps) (auto simp: cls_alnum_ascii[OF c])
qed

lemma name_rule_ascii:
  assumes "list_all is_ascii s"
  shows "name_rule s =
     (s \<noteq> [] \<and> is_letter (hd s) \<and>
      list_all (\<lambda>c. is_letter c \<or> is_digit c \<or> c = CHR ''-'' \<or> c = CHR ''+'') (tl s) \<and>
      (is_letter (last s) \<or> is_digit (last s)))"
proof (cases s)
  case Nil
  then show ?thesis by (simp add: name_rule_def cls_letter_def)
next
  case (Cons c cs)
  then have c: "is_ascii c" and cs: "list_all is_ascii cs" using assms by auto
  have "cls_letter s = (if is_letter c then Some cs else None)"
    using c Cons by (auto simp: cls_letter_def is_ascii_def)
  then show ?thesis using Cons rest_ok_ascii[OF cs, of True]
    by (auto simp: name_rule_def)
qed




section \<open>Guards of the vNet operations\<close>

lemma subnet_key_under_vnet:
  "prefix (GenResourceKey nsId StrVNet vNetId @ ''/subnet'')
          (GenChildResourceKey nsId StrSubnet vNetId subnetId)"
  by (simp add: GenResourceKey_def GenChildResourceKey_def StrVNet_def StrSubnet_def)

text \<open>
  C4.  With valid names, a subnet key stored under the vNet, and \<open>withSubnets\<close> equal to
  \<^verbatim>\<open>false\<close> or empty, \<^verbatim>\<open>DeleteVNet\<close> returns the in-use error and the state it returns is
  the state it was given: no entry of the store is written or deleted.
\<close>

theorem DeleteVNet_conflict:
  assumes "CheckString nsId = None" and "CheckString vNetId = None"
    and "withSubnets = ''false'' \<or> withSubnets = []"
    and "map_of (kv w) (GenChildResourceKey nsId StrSubnet vNetId subnetId) = Some d"
  shows "DeleteVNet e w nsId vNetId withSubnets =
           (Inl (ErrMsg (''the vNet ('' @ vNetId @ '') is in-use, may have subnets'')), w)"
proof -
  let ?k = "GenChildResourceKey nsId StrSubnet vNetId subnetId"
  let ?p = "GenResourceKey nsId StrVNet vNetId @ ''/subnet''"
  have "(?k, d) \<in> set (kv w)" using assms(4) by (rule map_of_SomeD)
  then have "(?k, d) \<in> set (filter (\<lambda>(k, v). prefix ?p k) (kv w))"
    using subnet_key_under_vnet[of nsId vNetId subnetId] by simp
  then have ne: "filter (\<lambda>(k, v). prefix ?p k) (kv w) \<noteq> []" by force
  have "DeleteVNet_prepare e w nsId vNetId withSubnets =
          (Inl (ErrMsg (''the vNet ('' @ vNetId @ '') is in-use, may have subnets'')), w)"
    using assms(1-3) ne
    by (auto simp: DeleteVNet_prepare_def kv_GetKvList_def Let_def)
  then show ?thesis by (simp add: DeleteVNet_def)
qed

theorem DeleteVNet_conflict_witness:
  "DeleteVNet (sample_env ok_spider) stored_world ''default'' ''vnet1'' ''false'' =
     (Inl (ErrMsg ''the vNet (vnet1) is in-use, may have subnets''), stored_world)"
proof -
  have a: "CheckString ''default'' = None" and b: "CheckString ''vnet1'' = None"
    by code_simp+
  have "map_of (kv stored_world) (GenChildResourceKey ''default'' StrSubnet ''vnet1'' ''sn1'') \<noteq> None"
    by code_simp
  then obtain d where
    d: "map_of (kv stored_world) (GenChildResourceKey ''default'' StrSubnet ''vnet1'' ''sn1'') = Some d"
    by blast
  show ?thesis
    using DeleteVNet_conflict[OF a b _ d, of "''false''" "sample_env ok_spider"] by simp
qed

lemma CreateVNet_prepare_existing:
  assumes "map_of (kv w) (GenResourceKey nsId StrVNet (Name_VNetReq vNetReq)) = Some d"
  shows "kv (snd (CreateVNet_prepare e w nsId vNetReq)) = kv w"
    and "isl (fst (CreateVNet_prepare e w nsId vNetReq))"
    and "CheckString nsId = None \<Longrightarrow> validate_Struct e vNetReq = None \<Longrightarrow>
         fst (CreateVNet_prepare e w nsId vNetReq) =
           Inl (ErrMsg (''already exists, vNet: '' @ Name_VNetReq vNetReq))"
  using assms
  by (auto simp: CreateVNet_prepare_def GenUid_def CheckResource_def kv_GetKv_def
      zero_VNet_def Let_def split: option.splits)

text \<open>
  C6.  When the key of a vNet with the request's name holds a value, \<^verbatim>\<open>CreateVNet\<close>
  returns an error and leaves the store as it was; for a request that passes the checks
  of the namespace and of the struct, the error is the already-exists error.
\<close>

theorem CreateVNet_duplicate:
  assumes "map_of (kv w) (GenResourceKey nsId StrVNet (Name_VNetReq vNetReq)) = Some d"
  shows "kv (snd (CreateVNet e w nsId vNetReq)) = kv w \<and>
         isl (fst (CreateVNet e w nsId vNetReq)) \<and>
         (CheckString nsId = None \<and> validate_Struct e vNetReq = None \<longrightarrow>
            fst (CreateVNet e w nsId vNetReq) =
              Inl (ErrMsg (''already exists, vNet: '' @ Name_VNetReq vNetReq)))"
proof -
  obtain r w1 where p: "CreateVNet_prepare e w nsId vNetReq = (r, w1)" by force
  have "isl r" using CreateVNet_prepare_existing(2)[OF assms, of e] p by simp
  then obtain err where r: "r = Inl err" by (cases r) auto
  have c: "CreateVNet e w nsId vNetReq = (Inl err, w1)"
    using p r by (simp add: CreateVNet_def)
  show ?thesis
    using c p r CreateVNet_prepare_existing(1)[OF assms, of e]
      CreateVNet_prepare_existing(3)[OF assms, of e]
    by auto
qed

theorem CreateVNet_duplicate_witness:
  "kv (snd (CreateVNet (sample_env ok_spider) stored_world ''default'' sample_req)) =
     kv stored_world \<and>
   fst (CreateVNet (sample_env ok_spider) stored_world ''default'' sample_req) =
     Inl (ErrMsg ''already exists, vNet: vnet1'')"
proof -
  have a: "CheckString ''default'' = None"
    and b: "validate_Struct (sample_env ok_spider) sample_req = None"
    by code_simp+
  have "map_of (kv stored_world) (GenResourceKey ''default'' StrVNet (Name_VNetReq sample_req)) \<noteq> None"
    by code_simp
  then obtain d where
    d: "map_of (kv stored_world) (GenResourceKey ''default'' StrVNet (Name_VNetReq sample_req)) = Some d"
    by blast
  show ?thesis
    using CreateVNet_duplicate[OF d, of "sample_env ok_spider"] a b
    by (simp add: sample_req_def)
qed



section \<open>Reconciling the response of the broker\<close>








lemma update_subnet_Uuid [simp]:
  "Uuid_Subnet (update_subnet v r x tb) = Uuid_Subnet tb"
  by (simp add: update_subnet_def)






section \<open>The stored status around the broker call\<close>






section \<open>Cascading delete\<close>

lemma delete_filter: "AList.delete k al = filter (\<lambda>kd. fst kd \<noteq> k) al"
  by (induction al) auto

lemma filter_update_same:
  "filter (\<lambda>kd. fst kd \<noteq> k) (AList.update k v al) = filter (\<lambda>kd. fst kd \<noteq> k) al"
  by (induction al) auto

lemma DeleteSubnet_ok:
  assumes "map_of (kv w) (GenChildResourceKey nsId StrSubnet vNetId subnetId) = Some (SubnetDoc sn)"
    and "\<And>vpc name conn. \<exists>r. spider_delete_subnet (broker e) vpc name conn = Inr r \<and> ParseBool r = Inr True"
  shows "\<exists>msg. DeleteSubnet e w nsId vNetId subnetId =
           (Inr msg,
            w\<lparr>kv := filter (\<lambda>kd. fst kd \<noteq> GenChildResourceKey nsId StrSubnet vNetId subnetId) (kv w)\<rparr>)"
proof -
  obtain r where r: "spider_delete_subnet (broker e) (CspVNetName_Subnet sn) (CspSubnetName sn)
                       (ConnectionName_Subnet sn) = Inr r" "ParseBool r = Inr True"
    using assms(2) by blast
  show ?thesis
    using assms(1) r
    by (simp add: DeleteSubnet_def kv_GetKv_def Unmarshal_Subnet_def kv_Put_def kv_Delete_def
        Let_def delete_filter filter_update_same)
qed

lemma delete_subnets_ok:
  assumes "distinct (map fst (kv w))" and "set R \<subseteq> set (kv w)" and "distinct (map fst R)"
    and "list_all (subnet_entry nsId vNetId) R"
    and "\<And>vpc name conn. \<exists>r. spider_delete_subnet (broker e) vpc name conn = Inr r \<and> ParseBool r = Inr True"
  shows "delete_subnets e w nsId vNetId R =
           (None, w\<lparr>kv := filter (\<lambda>kd. fst kd \<notin> fst ` set R) (kv w)\<rparr>)"
  using assms(1-4)
proof (induction R arbitrary: w)
  case Nil
  then show ?case by simp
next
  case (Cons kd R)
  obtain k d where kd: "kd = (k, d)" by (cases kd)
  obtain sn where sn: "d = SubnetDoc sn" "k = GenChildResourceKey nsId StrSubnet vNetId (Id_Subnet sn)"
    using Cons.prems(4) kd by (auto simp: subnet_entry_def split: doc.splits)
  have "(k, d) \<in> set (kv w)" using Cons.prems(2) kd by simp
  then have m: "map_of (kv w) k = Some d" using Cons.prems(1) by simp
  let ?w1 = "w\<lparr>kv := filter (\<lambda>x. fst x \<noteq> k) (kv w)\<rparr>"
  obtain msg where ds: "DeleteSubnet e w nsId vNetId (Id_Subnet sn) = (Inr msg, ?w1)"
    using DeleteSubnet_ok[of w nsId vNetId "Id_Subnet sn" sn e] m sn assms(5) by auto
  have "distinct (map fst (kv ?w1))" using Cons.prems(1) by (simp add: distinct_map_filter)
  moreover have "set R \<subseteq> set (kv ?w1)"
    using Cons.prems(2,3) kd by (auto simp: rev_image_eqI)
  moreover have "distinct (map fst R)" "list_all (subnet_entry nsId vNetId) R"
    using Cons.prems(3,4) by auto
  ultimately have "delete_subnets e ?w1 nsId vNetId R =
      (None, ?w1\<lparr>kv := filter (\<lambda>x. fst x \<notin> fst ` set R) (kv ?w1)\<rparr>)"
    by (rule Cons.IH)
  moreover have "filter (\<lambda>x. fst x \<notin> fst ` set R) (kv ?w1) =
                 filter (\<lambda>x. fst x \<notin> fst ` set (kd # R)) (kv w)"
    using kd by simp
  ultimately show ?case
    using ds kd sn by (simp add: Unmarshal_Subnet_def)
qed


lemma list_all_keys_update:
  "list_all (\<lambda>kd. P (fst kd)) al \<Longrightarrow> P k \<Longrightarrow> list_all (\<lambda>kd. P (fst kd)) (AList.update k v al)"
  by (induction al) auto

lemma subnet_entry_prefix:
  "subnet_entry nsId vNetId kd \<Longrightarrow>
   prefix (GenResourceKey nsId StrVNet vNetId @ ''/subnet'') (fst kd)"
  by (auto simp: subnet_entry_def subnet_key_under_vnet split: doc.splits)

lemma prefix_slash_subnet:
  "prefix (p @ ''/subnet'') k \<Longrightarrow> prefix (p @ ''/'') k"
  by (auto simp: prefix_def)

lemma vNetKey_not_under_itself:
  "\<not> prefix (GenResourceKey nsId StrVNet vNetId @ ''/'') (GenResourceKey nsId StrVNet vNetId)"
  by (auto simp: prefix_def)

text \<open>
  C5.  For a stored vNet (with valid names, distinct keys, and every entry below the vNet a
  subnet under the key of its Id), \<^verbatim>\<open>DeleteVNet\<close> with \<open>withSubnets\<close> equal to \<^verbatim>\<open>true\<close> and
  a broker that answers every delete with success returns the message
  \<^verbatim>\<open>the vNet (<id>) has been deleted\<close> and leaves the store without the key of the vNet
  and without any key below it, every other entry as it was.  The subnets go first: when
  the broker is called for the vNet, no key below the vNet is left and the key of the vNet
  still holds a value.
\<close>

theorem DeleteVNet_cascade:
  assumes "CheckString nsId = None" and "CheckString vNetId = None"
    and "vnet_stored w nsId vNetId"
    and "\<And>vpc name conn. \<exists>r. spider_delete_subnet (broker e) vpc name conn = Inr r \<and> ParseBool r = Inr True"
    and "\<And>name conn. \<exists>r. spider_delete_vpc (broker e) name conn = Inr r \<and> ParseBool r = Inr True"
  shows "DeleteVNet e w nsId vNetId ''true'' =
           (Inr \<lparr>Message = ''the vNet ('' @ vNetId @ '') has been deleted''\<rparr>,
            w\<lparr>kv := filter (\<lambda>kd. \<not> under_vnet nsId vNetId (fst kd)) (kv w)\<rparr>) \<and>
         (\<exists>stored w1.
            DeleteVNet_prepare e w nsId vNetId ''true'' =
              (Inr (stored, GenResourceKey nsId StrVNet vNetId), w1) \<and>
            list_all (\<lambda>kd. \<not> prefix (GenResourceKey nsId StrVNet vNetId @ ''/'') (fst kd)) (kv w1) \<and>
            map_of (kv w1) (GenResourceKey nsId StrVNet vNetId) \<noteq> None)"
proof -
  let ?key = "GenResourceKey nsId StrVNet vNetId"
  let ?L = "filter (\<lambda>(k, v). prefix (?key @ ''/subnet'') k) (kv w)"
  have dist: "distinct (map fst (kv w))"
    and wf: "list_all (\<lambda>kd. prefix (?key @ ''/'') (fst kd) \<longrightarrow> subnet_entry nsId vNetId kd) (kv w)"
    using assms(3) by (auto simp: vnet_stored_def)
  obtain v where v: "map_of (kv w) ?key = Some (VNetDoc v)"
    using assms(3) by (auto simp: vnet_stored_def split: option.splits doc.splits)
  have L1: "set ?L \<subseteq> set (kv w)" by auto
  have L2: "distinct (map fst ?L)" using dist by (simp add: distinct_map_filter)
  have L3: "list_all (subnet_entry nsId vNetId) ?L"
    using wf by (auto simp: list_all_iff dest: prefix_slash_subnet)
  let ?s1 = "filter (\<lambda>x. fst x \<notin> fst ` set ?L) (kv w)"
  have ds: "delete_subnets e w nsId vNetId ?L = (None, w\<lparr>kv := ?s1\<rparr>)"
    by (rule delete_subnets_ok[OF dist L1 L2 L3 assms(4)])
  have inL: "(fst x \<in> fst ` set ?L) = prefix (?key @ ''/'') (fst x)" if "x \<in> set (kv w)" for x
  proof
    assume "fst x \<in> fst ` set ?L"
    then show "prefix (?key @ ''/'') (fst x)" by (auto dest: prefix_slash_subnet)
  next
    assume "prefix (?key @ ''/'') (fst x)"
    then have "subnet_entry nsId vNetId x" using wf that by (auto simp: list_all_iff)
    then have "prefix (?key @ ''/subnet'') (fst x)" by (rule subnet_entry_prefix)
    then show "fst x \<in> fst ` set ?L" using that by (cases x) force
  qed
  have "(?key, VNetDoc v) \<in> set (kv w)" using v by (rule map_of_SomeD)
  moreover have "?key \<notin> fst ` set ?L"
    using vNetKey_not_under_itself[of nsId vNetId] by (auto dest: prefix_slash_subnet)
  ultimately have "(?key, VNetDoc v) \<in> set ?s1" by force
  moreover have "distinct (map fst ?s1)" using dist by (simp add: distinct_map_filter)
  ultimately have v1: "map_of ?s1 ?key = Some (VNetDoc v)" by simp
  obtain r where r: "spider_delete_vpc (broker e) (CspVNetName v) (ConnectionName_VNet v) = Inr r"
      "ParseBool r = Inr True"
    using assms(5) by blast
  have prep: "DeleteVNet_prepare e w nsId vNetId ''true'' =
      (Inr (v\<lparr>Status_VNet := NetworkOnDeleting\<rparr>, ?key),
       w\<lparr>kv := AList.update ?key (VNetDoc (v\<lparr>Status_VNet := NetworkOnDeleting\<rparr>)) ?s1\<rparr>)"
    using assms(1,2) ds v1
    by (simp add: DeleteVNet_prepare_def kv_GetKvList_def kv_GetKv_def Unmarshal_VNet_def
        kv_Put_def Let_def)
  have "filter (\<lambda>x. fst x \<noteq> ?key) ?s1 =
        filter (\<lambda>x. fst x \<notin> fst ` set ?L \<and> fst x \<noteq> ?key) (kv w)"
    by (simp only: filter_filter)
  also have "\<dots> = filter (\<lambda>kd. \<not> under_vnet nsId vNetId (fst kd)) (kv w)"
  proof (rule filter_cong[OF refl])
    fix x assume "x \<in> set (kv w)"
    from inL[OF this]
    show "(fst x \<notin> fst ` set ?L \<and> fst x \<noteq> ?key) = (\<not> under_vnet nsId vNetId (fst x))"
      unfolding under_vnet_def by blast
  qed
  finally have fin: "filter (\<lambda>x. fst x \<noteq> ?key) ?s1 =
             filter (\<lambda>kd. \<not> under_vnet nsId vNetId (fst kd)) (kv w)" .
  have "list_all (\<lambda>kd. \<not> prefix (?key @ ''/'') (fst kd)) ?s1"
    using inL by (auto simp: list_all_iff)
  then have sub: "list_all (\<lambda>kd. \<not> prefix (?key @ ''/'') (fst kd))
                    (AList.update ?key (VNetDoc (v\<lparr>Status_VNet := NetworkOnDeleting\<rparr>)) ?s1)"
    using vNetKey_not_under_itself[of nsId vNetId]
    by (rule list_all_keys_update)
  have "DeleteVNet e w nsId vNetId ''true'' =
           (Inr \<lparr>Message = ''the vNet ('' @ vNetId @ '') has been deleted''\<rparr>,
            w\<lparr>kv := filter (\<lambda>kd. \<not> under_vnet nsId vNetId (fst kd)) (kv w)\<rparr>)"
    using prep r fin
    by (simp add: DeleteVNet_def kv_Delete_def delete_filter filter_update_same zero_Msg_def)
  moreover have "map_of (AList.update ?key (VNetDoc (v\<lparr>Status_VNet := NetworkOnDeleting\<rparr>)) ?s1) ?key
                   \<noteq> None"
    by (simp add: update_conv')
  ultimately show ?thesis using prep sub by simp
qed

theorem DeleteVNet_cascade_witness:
  "DeleteVNet (sample_env ok_spider) stored_world ''default'' ''vnet1'' ''true'' =
     (Inr \<lparr>Message = ''the vNet (vnet1) has been deleted''\<rparr>, stored_world\<lparr>kv := []\<rparr>)"
proof -
  have a: "CheckString ''default'' = None" and b: "CheckString ''vnet1'' = None"
    and c: "vnet_stored stored_world ''default'' ''vnet1''"
    by code_simp+
  have t: "ParseBool ''true'' = Inr True" by code_simp
  have d: "\<exists>r. spider_delete_subnet (broker (sample_env ok_spider)) vpc name conn = Inr r \<and>
               ParseBool r = Inr True" for vpc name conn
    using t by (simp add: sample_env_def ok_spider_def)
  have e: "\<exists>r. spider_delete_vpc (broker (sample_env ok_spider)) name conn = Inr r \<and>
               ParseBool r = Inr True" for name conn
    using t by (simp add: sample_env_def ok_spider_def)
  have f: "filter (\<lambda>kd. \<not> under_vnet ''default'' ''vnet1'' (fst kd)) (kv stored_world) = []"
    by code_simp
  show ?thesis
    using DeleteVNet_cascade[OF a b c d e] f by simp
qed

section \<open>The private key and the decryption of the values\<close>

lemma RegisterCredential_rest_privateKeyStore:
  "privateKeyStore (snd (RegisterCredential_rest reg w req d)) = privateKeyStore w"
  by (simp add: RegisterCredential_rest_def Let_def split: sum.splits option.splits prod.splits)

lemma RegisterCredential_private_key:
  "map_of (privateKeyStore (snd (RegisterCredential reg w req))) (PublicKeyTokenId req) =
     (if decrypts reg w req then None
      else map_of (privateKeyStore w) (PublicKeyTokenId req))"
  by (auto simp: RegisterCredential_def decrypts_def RegisterCredential_rest_privateKeyStore
      delete_conv split: option.splits sum.splits)

text \<open>
  C2.  The private key is deleted only after the AES key and every value have been
  decrypted; any return before that leaves it in \<^verbatim>\<open>privateKeyStore\<close>.  For a request
  whose encrypted AES key is not base64 text, \<^verbatim>\<open>RegisterCredential\<close> returns the decoding
  error and the token is still in the store.
\<close>

theorem RegisterCredential_keeps_private_key:
  "RegisterCredential sample_registry keyed_world (sample_credential ''alice'' ''token3'' ''!'' []) =
     (Inl (ErrMsg ''failed to decode encrypted AES key: illegal base64 data''), keyed_world) \<and>
   map_of (privateKeyStore keyed_world) ''token3'' = Some 3"
  by code_simp

text \<open>
  C10.  With the token in the store, an AES key that decrypts to a valid key size, and a
  first credential value that decodes from base64, \<^verbatim>\<open>RegisterCredential\<close> panics rather
  than returning an error when the decoded value is shorter than the AES block (the slice
  of the initialisation vector is out of range) and when it is exactly one block long
  (\<^verbatim>\<open>unpad\<close> indexes the empty plain text).  The state is the one before the call.
\<close>

theorem RegisterCredential_panics:
  assumes "map_of (privateKeyStore w) (PublicKeyTokenId req) = Some privateKey"
    and "base64_DecodeString (EncryptedClientAesKeyByPublicKey req) = Inr encryptedAesKey"
    and "rsa_DecryptOAEP reg privateKey encryptedAesKey = Inr aesKey"
    and "length aesKey = 16 \<or> length aesKey = 24 \<or> length aesKey = 32"
    and "CredentialKeyValueList req = keyValue # rest"
    and "base64_DecodeString (Value keyValue) = Inr encryptedBytes"
  shows "(length encryptedBytes < 16 \<longrightarrow>
            RegisterCredential reg w req = (Inl (Panic ''slice bounds out of range''), w)) \<and>
         (length encryptedBytes = 16 \<longrightarrow>
            RegisterCredential reg w req = (Inl (Panic ''index out of range [-1]''), w))"
proof -
  have a: "length encryptedBytes < 16 \<Longrightarrow>
           decrypt_value reg aesKey keyValue = Inl (Panic ''slice bounds out of range'')"
    using assms(4,6) by (auto simp: decrypt_value_def aes_BlockSize_def)
  have b: "length encryptedBytes = 16 \<Longrightarrow>
           decrypt_value reg aesKey keyValue = Inl (Panic ''index out of range [-1]'')"
    using assms(4,6)
    by (auto simp: decrypt_value_def aes_BlockSize_def CryptBlocks_def unpad_def wrap_error_def)
  show ?thesis
    using assms(1,2,3,5) a b by (auto simp: RegisterCredential_def)
qed

theorem RegisterCredential_panics_witness:
  "RegisterCredential sample_registry keyed_world
     (sample_credential ''alice'' ''token3'' ''AAAA'' [\<lparr>Key = ''secret'', Value = ''AAAA''\<rparr>]) =
     (Inl (Panic ''slice bounds out of range''), keyed_world) \<and>
   RegisterCredential sample_registry keyed_world
     (sample_credential ''alice'' ''token3'' ''AAAA''
        [\<lparr>Key = ''secret'', Value = ''AAAAAAAAAAAAAAAAAAAAAA==''\<rparr>]) =
     (Inl (Panic ''index out of range [-1]''), keyed_world)"
proof -
  let ?r1 = "sample_credential ''alice'' ''token3'' ''AAAA'' [\<lparr>Key = ''secret'', Value = ''AAAA''\<rparr>]"
  let ?r2 = "sample_credential ''alice'' ''token3'' ''AAAA''
               [\<lparr>Key = ''secret'', Value = ''AAAAAAAAAAAAAAAAAAAAAA==''\<rparr>]"
  have k: "map_of (privateKeyStore keyed_world) ''token3'' = Some 3" by code_simp
  have e: "base64_DecodeString ''AAAA'' = Inr (replicate 3 (CHR 0x00))" by code_simp
  have e16: "base64_DecodeString ''AAAAAAAAAAAAAAAAAAAAAA=='' = Inr (replicate 16 (CHR 0x00))"
    by code_simp
  have r: "rsa_DecryptOAEP sample_registry 3 (replicate 3 (CHR 0x00)) = Inr ''0123456789abcdef''"
    by (simp add: sample_registry_def)
  have l: "length ''0123456789abcdef'' = 16 \<or> length ''0123456789abcdef'' = 24 \<or>
           length ''0123456789abcdef'' = 32" by simp
  have "RegisterCredential sample_registry keyed_world ?r1 =
          (Inl (Panic ''slice bounds out of range''), keyed_world)"
    using RegisterCredential_panics[of keyed_world ?r1 3 "replicate 3 (CHR 0x00)" sample_registry
        "''0123456789abcdef''" "\<lparr>Key = ''secret'', Value = ''AAAA''\<rparr>" "[]"
        "replicate 3 (CHR 0x00)"] k e r l
    by (simp add: sample_credential_def)
  moreover have "RegisterCredential sample_registry keyed_world ?r2 =
          (Inl (Panic ''index out of range [-1]''), keyed_world)"
    using RegisterCredential_panics[of keyed_world ?r2 3 "replicate 3 (CHR 0x00)" sample_registry
        "''0123456789abcdef''" "\<lparr>Key = ''secret'', Value = ''AAAAAAAAAAAAAAAAAAAAAA==''\<rparr>" "[]"
        "replicate 16 (CHR 0x00)"] k e e16 r l
    by (simp add: sample_credential_def)
  ultimately show ?thesis by simp
qed

end
